theory Spec2Isabelle
  imports Complex_Main "HOL-Library.Sublist" "HOL-Library.Log_Nat"
begin

section \<open>JavaScript values used by the services\<close>

text \<open>
  Amounts are JavaScript numbers, that is IEEE 754 doubles. A finite number is modelled
  by the rational it denotes, and the result of an arithmetic operation of the financial
  calculators, of the statement import and of the reading of a decimal is rounded as the
  machine rounds it: to the nearest number with a significand of 53 bits, a tie going to
  the even significand; the mean of the anomaly check is taken over the exact numbers. The
  exponent is not bounded, so overflow and underflow (magnitudes above \<open>2^1023\<close> or below
  \<open>2^-1022\<close>) are left out. The three non-finite results of a division are values of the
  model, so that a division by zero is not the HOL convention \<open>x / 0 = 0\<close>.
\<close>

datatype jsnum = Num rat | PosInfinity | NegInfinity | NaN

subsection \<open>Rounding to a double\<close>

text \<open>The exponent of a positive number: \<open>2 powi ilog2 x \<le> x < 2 powi (ilog2 x + 1)\<close>.\<close>

definition ilog2 :: "rat \<Rightarrow> int" where
  "ilog2 x = (if 1 \<le> x then bitlen \<lfloor>x\<rfloor> - 1 else - bitlen (\<lceil>1 / x\<rceil> - 1))"

text \<open>The nearest integer, a tie going to the even one.\<close>

definition round_even :: "rat \<Rightarrow> int" where
  "round_even x =
     (let f = \<lfloor>x\<rfloor>; r = x - of_int f
      in if r < 1 / 2 then f else if 1 / 2 < r then f + 1 else if even f then f else f + 1)"

text \<open>The double nearest to \<open>x\<close>: the significand \<open>\<bar>x\<bar> / 2 powi e\<close> is rounded to 53 bits.\<close>

definition fl :: "rat \<Rightarrow> rat" where
  "fl x =
     (if x = 0 then 0
      else (let e = ilog2 \<bar>x\<bar> - 52
            in sgn x * (of_int (round_even (\<bar>x\<bar> / 2 powi e)) * 2 powi e)))"

text \<open>\<^verbatim>\<open>a + b\<close>, \<^verbatim>\<open>a - b\<close> and \<^verbatim>\<open>a * b\<close> on finite numbers.\<close>

definition dadd :: "rat \<Rightarrow> rat \<Rightarrow> rat" where
  "dadd a b = fl (a + b)"

definition dsub :: "rat \<Rightarrow> rat \<Rightarrow> rat" where
  "dsub a b = fl (a - b)"

definition dmul :: "rat \<Rightarrow> rat \<Rightarrow> rat" where
  "dmul a b = fl (a * b)"

text \<open>\<^verbatim>\<open>a / b\<close> on finite numbers when \<open>b\<close> is not zero.\<close>

definition ddiv :: "rat \<Rightarrow> rat \<Rightarrow> rat" where
  "ddiv a b = fl (a / b)"

text \<open>\<^verbatim>\<open>a / b\<close> on two finite numbers.\<close>

definition js_div :: "rat \<Rightarrow> rat \<Rightarrow> jsnum" where
  "js_div a b =
     (if b = 0 then (if 0 < a then PosInfinity else if a < 0 then NegInfinity else NaN)
      else Num (ddiv a b))"

text \<open>\<^verbatim>\<open>x * c\<close> for a finite positive constant \<open>c\<close>.\<close>

fun js_times_pos :: "jsnum \<Rightarrow> rat \<Rightarrow> jsnum" where
  "js_times_pos (Num a) c = Num (dmul a c)"
| "js_times_pos PosInfinity c = PosInfinity"
| "js_times_pos NegInfinity c = NegInfinity"
| "js_times_pos NaN c = NaN"

subsection \<open>Comparison and truthiness\<close>

text \<open>\<^verbatim>\<open>x > c\<close>: every comparison with NaN is false.\<close>

fun js_gt :: "jsnum \<Rightarrow> rat \<Rightarrow> bool" where
  "js_gt (Num a) c = (c < a)"
| "js_gt PosInfinity c = True"
| "js_gt NegInfinity c = False"
| "js_gt NaN c = False"

text \<open>
  Truthiness of an optional number (\<open>None\<close> is \<^verbatim>\<open>undefined\<close> or \<^verbatim>\<open>null\<close>)
  and of an optional string.
\<close>

fun truthy_num :: "rat option \<Rightarrow> bool" where
  "truthy_num None = False"
| "truthy_num (Some a) = (a \<noteq> 0)"

fun truthy_str :: "string option \<Rightarrow> bool" where
  "truthy_str None = False"
| "truthy_str (Some s) = (s \<noteq> [])"

text \<open>\<^verbatim>\<open>a || b\<close> on optional numbers and on optional strings.\<close>

definition or_num :: "rat option \<Rightarrow> rat option \<Rightarrow> rat option" where
  "or_num a b = (if truthy_num a then a else b)"

definition or_str :: "string option \<Rightarrow> string option \<Rightarrow> string option" where
  "or_str a b = (if truthy_str a then a else b)"

section \<open>Financial calculators (ChatbotService)\<close>

text \<open>
  \<^verbatim>\<open>getFinancialAnalytics(userId, "dashboard")\<close> reads the database; the handlers
  only use its outcome. \<open>None\<close> stands for a result without \<^verbatim>\<open>success && data\<close>.
\<close>

record snapshot =
  balance :: rat
  totalIncome :: rat
  totalExpenses :: rat

text \<open>
  The payload of an advice intent, \<^verbatim>\<open>data.amount\<close> and \<^verbatim>\<open>data.item\<close>, with the
  types the extraction prompt asks for: a number and a string, when present.
\<close>

record advice_data =
  amount :: "rat option"
  item :: "string option"

datatype affordability_status =
  NOT_AFFORDABLE | RISKY_PURCHASE | EXPENSIVE_FOR_YOUR_INCOME | AFFORDABLE

datatype risk_level = HighRisk | MediumRisk | LowRisk

text \<open>The recommendation sentence, by its template and the number it prints.\<close>

datatype recommendation =
    NegativeBalance
  | NeedAdditional rat
  | LeavesOnly rat
  | PercentOfIncome jsnum
  | CanAfford rat

record affordability_analysis =
  status :: affordability_status
  risk :: risk_level
  advice :: recommendation
  itemName :: "string option"
  emergencyFund :: rat
  safeSpendingLimit :: rat
  incomePercentage :: jsnum
  data_affordable :: bool
  data_purchaseAmount :: rat
  data_remainingBalance :: rat
  data_riskLevel :: string

datatype affordability_response =
    NeedAmount
  | Analysis affordability_analysis
  | GeneralGuide

text \<open>
  The chain of tests of \<^verbatim>\<open>handleAffordabilityCheck\<close> that sets the status, the risk
  level and the recommendation.
\<close>

definition verdict ::
  "rat \<Rightarrow> rat \<Rightarrow> rat \<Rightarrow> jsnum \<Rightarrow>
   affordability_status \<times> risk_level \<times> recommendation" where
  "verdict bal purchaseAmount safeLimit incomePct =
     (if bal \<le> 0 then (NOT_AFFORDABLE, HighRisk, NegativeBalance)
      else if bal < purchaseAmount then
        (NOT_AFFORDABLE, HighRisk, NeedAdditional (dsub purchaseAmount bal))
      else if safeLimit < purchaseAmount then
        (RISKY_PURCHASE, MediumRisk, LeavesOnly (dsub bal purchaseAmount))
      else if js_gt incomePct 50 then
        (EXPENSIVE_FOR_YOUR_INCOME, MediumRisk, PercentOfIncome incomePct)
      else (AFFORDABLE, LowRisk, CanAfford (dsub bal purchaseAmount)))"

definition risk_label :: "risk_level \<Rightarrow> string" where
  "risk_label r = (if r = LowRisk then ''low'' else if r = MediumRisk then ''medium'' else ''high'')"

text \<open>
  \<^verbatim>\<open>handleAffordabilityCheck\<close>. \<open>queryAmount\<close> and \<open>queryItem\<close> are what
  \<^verbatim>\<open>extractAmountFromQuery(userQuery || "")\<close> and
  \<^verbatim>\<open>extractItemFromQuery(userQuery || "")\<close> return (\<open>None\<close> for \<^verbatim>\<open>null\<close>).
\<close>

definition handleAffordabilityCheck ::
  "snapshot option \<Rightarrow> advice_data \<Rightarrow> rat option \<Rightarrow> string option \<Rightarrow> affordability_response" where
  "handleAffordabilityCheck analyticsResult d queryAmount queryItem =
     (case analyticsResult of
        None \<Rightarrow> GeneralGuide
      | Some s \<Rightarrow>
          (let monthlyIncome = totalIncome s;
               purchaseAmount = or_num (amount d) queryAmount;
               name = or_str (item d) queryItem
           in case purchaseAmount of
                None \<Rightarrow> NeedAmount
              | Some p \<Rightarrow>
                  if p = 0 then NeedAmount
                  else
                    (let emergency = dmul (totalExpenses s) 6;
                         recommendedReserve = dmul (totalExpenses s) 3;
                         safeLimit = max 0 (dsub (balance s) recommendedReserve);
                         pct = js_times_pos (js_div p monthlyIncome) 100;
                         v = verdict (balance s) p safeLimit pct
                     in Analysis
                          \<lparr> status = fst v, risk = fst (snd v), advice = snd (snd v),
                            itemName = name, emergencyFund = emergency,
                            safeSpendingLimit = safeLimit, incomePercentage = pct,
                            data_affordable = (fst v = AFFORDABLE),
                            data_purchaseAmount = p,
                            data_remainingBalance = dsub (balance s) p,
                            data_riskLevel = risk_label (fst (snd v)) \<rparr>)))"

subsection \<open>Savings timeline\<close>

text \<open>
  The handler looks for an amount in the conversation context with
  the pattern "rupee sign, then \<^verbatim>\<open>(\d+(?:,\d+)*)\<close>" (digits in comma-separated groups) and
  reads it with \<^verbatim>\<open>parseInt(m[1].replace(/,/g, ""))\<close>. Strings are byte lists here,
  so the rupee sign is its three UTF-8 bytes.
\<close>

definition is_digit :: "char \<Rightarrow> bool" where
  "is_digit c = (c \<in> set ''0123456789'')"

definition rupee :: string where
  "rupee = [CHR 0xE2, CHR 0x82, CHR 0xB9]"

text \<open>
  The capture group with its commas removed, read from a string whose first
  character is a digit.
\<close>

fun grouped_digits :: "string \<Rightarrow> string" where
  "grouped_digits [] = []"
| "grouped_digits (c # cs) =
     (if is_digit c then c # grouped_digits cs
      else if c = CHR '','' then
        (case cs of [] \<Rightarrow> [] | d # _ \<Rightarrow> if is_digit d then grouped_digits cs else [])
      else [])"

fun find_rupee_amount :: "string \<Rightarrow> string option" where
  "find_rupee_amount [] = None"
| "find_rupee_amount (c # cs) =
     (if prefix rupee (c # cs) \<and> (case drop 3 (c # cs) of [] \<Rightarrow> False | d # _ \<Rightarrow> is_digit d)
      then Some (grouped_digits (drop 3 (c # cs)))
      else find_rupee_amount cs)"

definition digit_value :: "char \<Rightarrow> nat" where
  "digit_value c = of_char c - 48"

definition parseInt_digits :: "string \<Rightarrow> rat" where
  "parseInt_digits ds = fl (of_nat (foldl (\<lambda>n c. 10 * n + digit_value c) 0 ds))"

text \<open>The amount the conversation context mentions first, if any.\<close>

definition contextAmount :: "string option \<Rightarrow> rat option" where
  "contextAmount conversationContext =
     (case conversationContext of
        None \<Rightarrow> None
      | Some ctx \<Rightarrow> map_option parseInt_digits (find_rupee_amount ctx))"

text \<open>The amount after the payload, the query and the context have been tried.\<close>

definition extractedAmount :: "advice_data \<Rightarrow> rat option \<Rightarrow> string option \<Rightarrow> rat option" where
  "extractedAmount d queryAmount conversationContext =
     (let purchaseAmount = or_num (amount d) queryAmount
      in if \<not> truthy_num purchaseAmount \<and> truthy_str conversationContext then
           (case contextAmount conversationContext of
              None \<Rightarrow> purchaseAmount
            | Some a \<Rightarrow> Some a)
         else purchaseAmount)"

text \<open>
  Lines 2950-2968 of the handler: the target amount and the item name, from the intent
  payload, then the query, then the conversation context, then the default.
\<close>

definition resolveTarget ::
  "advice_data \<Rightarrow> rat option \<Rightarrow> string option \<Rightarrow> string option \<Rightarrow> rat option \<times> string option" where
  "resolveTarget d queryAmount queryItem conversationContext =
     (let purchaseAmount = extractedAmount d queryAmount conversationContext;
          name = or_str (item d) queryItem
      in if \<not> truthy_num purchaseAmount
         then (Some 50000, or_str name (Some ''iPhone''))
         else (purchaseAmount, name))"

record savings_options =
  opt_shortfall :: rat
  opt_monthlySurplus :: rat
  monthsForItemOnly :: int
  monthsAt70Percent :: int
  monthsAt50Percent :: int
  monthsWithEmergencyFund :: int
  opt_emergencyFund :: rat

datatype savings_timeline =
    CannotSaveCurrently rat
  | CanAffordNow rat rat
  | TimelineOptions savings_options

datatype savings_recommendation =
    ReduceExpensesBy rat
  | GoodNews int
  | AchievableGoal rat int
  | LongTermGoal

record savings_report =
  sv_itemName :: "string option"
  timeline :: savings_timeline
  strategy_transfer :: "rat option"
  sv_recommendation :: savings_recommendation
  data_targetAmount :: rat
  data_shortfall :: rat
  data_monthlySurplus :: rat
  data_timelineMonths :: "int option"
  data_feasible :: bool

datatype savings_response =
    NeedTargetAmount
  | Report savings_report
  | TimelineCalculatorGuide

text \<open>
  \<^verbatim>\<open>handleSavingsTimeline\<close>. The response text is kept as its branch and the numbers
  it prints. \<^verbatim>\<open>Math.ceil\<close> is the integer ceiling of the quotient the machine has
  computed; the literal \<^verbatim>\<open>0.7\<close> is the double nearest to 7/10, which is a little
  below it, and \<^verbatim>\<open>0.5\<close> is one half exactly.
\<close>

definition handleSavingsTimeline ::
  "snapshot option \<Rightarrow> advice_data \<Rightarrow> rat option \<Rightarrow> string option \<Rightarrow> string option \<Rightarrow>
   savings_response" where
  "handleSavingsTimeline analyticsResult d queryAmount queryItem conversationContext =
     (case analyticsResult of
        None \<Rightarrow> TimelineCalculatorGuide
      | Some s \<Rightarrow>
          (let monthlySurplus = dsub (totalIncome s) (totalExpenses s);
               target = resolveTarget d queryAmount queryItem conversationContext
           in case fst target of
                None \<Rightarrow> NeedTargetAmount
              | Some targetAmount \<Rightarrow>
                  if targetAmount = 0 then NeedTargetAmount
                  else
                    (let shortfall = dsub targetAmount (balance s);
                         emergency = dmul (totalExpenses s) 6;
                         requiredTotal = dadd targetAmount emergency;
                         totalShortfall = dsub requiredTotal (balance s);
                         m100 = \<lceil>ddiv shortfall monthlySurplus\<rceil>;
                         mEF = \<lceil>ddiv totalShortfall monthlySurplus\<rceil>;
                         m50 = \<lceil>ddiv shortfall (dmul monthlySurplus (1 / 2))\<rceil>;
                         m70 = \<lceil>ddiv shortfall (dmul monthlySurplus (fl (7 / 10)))\<rceil>
                     in Report
                          \<lparr> sv_itemName = snd target,
                            timeline =
                              (if monthlySurplus \<le> 0 then CannotSaveCurrently \<bar>monthlySurplus\<bar>
                               else if shortfall \<le> 0
                                 then CanAffordNow (balance s) (dsub (balance s) targetAmount)
                               else TimelineOptions
                                 \<lparr> opt_shortfall = shortfall,
                                   opt_monthlySurplus = monthlySurplus,
                                   monthsForItemOnly = m100,
                                   monthsAt70Percent = m70,
                                   monthsAt50Percent = m50,
                                   monthsWithEmergencyFund = mEF,
                                   opt_emergencyFund = emergency \<rparr>),
                            strategy_transfer =
                              (if monthlySurplus \<le> 0 then None
                               else Some (dmul monthlySurplus (fl (7 / 10)))),
                            sv_recommendation =
                              (if monthlySurplus \<le> 0 then ReduceExpensesBy \<bar>monthlySurplus\<bar>
                               else if m70 \<le> 6 then GoodNews m70
                               else if m70 \<le> 12
                                 then AchievableGoal (dmul monthlySurplus (fl (7 / 10))) m70
                               else LongTermGoal),
                            data_targetAmount = targetAmount,
                            data_shortfall = max 0 shortfall,
                            data_monthlySurplus = monthlySurplus,
                            data_timelineMonths =
                              (if 0 < monthlySurplus
                               then Some \<lceil>ddiv shortfall (dmul monthlySurplus (fl (7 / 10)))\<rceil>
                               else None),
                            data_feasible = (0 < monthlySurplus) \<rparr>)))"

subsection \<open>The calculators' rules as the specification words them\<close>

text \<open>The verdict of an affordability response: status, risk, and the shortfall it names.\<close>

definition verdict_of ::
  "affordability_response \<Rightarrow> (affordability_status \<times> risk_level \<times> rat option) option" where
  "verdict_of r =
     (case r of
        Analysis a \<Rightarrow>
          Some (status a, risk a, (case advice a of NeedAdditional x \<Rightarrow> Some x | _ \<Rightarrow> None))
      | _ \<Rightarrow> None)"

text \<open>
  The five rules in the specification's words, first match winning: rule 3 compares the
  purchase with \<open>balance - 3 * monthlyExpenses\<close>, rule 4 the ratio
  \<open>purchase / monthlyIncome\<close> with one half. The difference, the product and the ratio are
  the machine's.
\<close>

definition claimed_verdict ::
  "rat \<Rightarrow> rat \<Rightarrow> rat \<Rightarrow> rat \<Rightarrow> affordability_status \<times> risk_level \<times> rat option" where
  "claimed_verdict bal monthlyIncome monthlyExpenses purchase =
     (if bal \<le> 0 then (NOT_AFFORDABLE, HighRisk, None)
      else if bal < purchase then (NOT_AFFORDABLE, HighRisk, Some (dsub purchase bal))
      else if dsub bal (dmul 3 monthlyExpenses) < purchase then (RISKY_PURCHASE, MediumRisk, None)
      else if js_gt (js_div purchase monthlyIncome) (1 / 2)
        then (EXPENSIVE_FOR_YOUR_INCOME, MediumRisk, None)
      else (AFFORDABLE, LowRisk, None))"

text \<open>
  The same rules over the exact numbers, without rounding; the ratio to an income of zero
  is infinite.
\<close>

definition exact_verdict ::
  "rat \<Rightarrow> rat \<Rightarrow> rat \<Rightarrow> rat \<Rightarrow> affordability_status \<times> risk_level \<times> rat option" where
  "exact_verdict bal monthlyIncome monthlyExpenses purchase =
     (if bal \<le> 0 then (NOT_AFFORDABLE, HighRisk, None)
      else if bal < purchase then (NOT_AFFORDABLE, HighRisk, Some (purchase - bal))
      else if bal - 3 * monthlyExpenses < purchase then (RISKY_PURCHASE, MediumRisk, None)
      else if (if monthlyIncome = 0 then 0 < purchase else 1 / 2 < purchase / monthlyIncome)
        then (EXPENSIVE_FOR_YOUR_INCOME, MediumRisk, None)
      else (AFFORDABLE, LowRisk, None))"

text \<open>A whole number of rupees of a magnitude up to \<open>2^50\<close>.\<close>

definition whole_amount :: "rat \<Rightarrow> bool" where
  "whole_amount a \<longleftrightarrow> a \<in> \<int> \<and> \<bar>a\<bar> \<le> 2 ^ 50"

text \<open>Months to reach a shortfall when the given fraction of the surplus is saved each month.\<close>

definition months_to_target :: "rat \<Rightarrow> rat \<Rightarrow> rat \<Rightarrow> int" where
  "months_to_target shortfall monthlySurplus rate = \<lceil>shortfall / (monthlySurplus * rate)\<rceil>"

section \<open>Anomaly detection (the in-memory assistant)\<close>

text \<open>
  A \<^verbatim>\<open>Date\<close> is its time value in milliseconds, or \<open>None\<close> for an invalid date.
  \<^verbatim>\<open>getHours()\<close> is the hour of the local time: the time value plus the local offset
  at that time, divided into hours, modulo 24; on an invalid date it is NaN (\<open>None\<close>).
\<close>

type_synonym js_date = "int option"

definition getHours :: "(int \<Rightarrow> int) \<Rightarrow> js_date \<Rightarrow> int option" where
  "getHours localTZA d = map_option (\<lambda>t. ((t + localTZA t) div 3600000) mod 24) d"

record expense =
  exp_name :: string
  exp_amount :: rat
  exp_category :: "string option"
  exp_date :: js_date

datatype alert = UNUSUAL rat "string option" | LATE_NIGHT int

text \<open>
  \<^verbatim>\<open>detectAnomalies(expense)\<close> reads the global \<^verbatim>\<open>expenseDB\<close>, passed here as an
  argument. A comparison with the NaN hour of an invalid date is false.
\<close>

definition detectAnomalies :: "(int \<Rightarrow> int) \<Rightarrow> expense list \<Rightarrow> expense \<Rightarrow> alert list" where
  "detectAnomalies localTZA expenseDB e =
     (let categoryExpenses = filter (\<lambda>x. exp_category x = exp_category e) expenseDB;
          amountAlerts =
            (if 0 < length categoryExpenses then
               (let avgAmount =
                      foldl (\<lambda>sum x. sum + exp_amount x) 0 categoryExpenses
                        / of_nat (length categoryExpenses)
                in if avgAmount * 2 < exp_amount e
                   then [UNUSUAL (exp_amount e) (exp_category e)] else [])
             else []);
          timeAlerts =
            (case getHours localTZA (exp_date e) of
               None \<Rightarrow> []
             | Some hour \<Rightarrow> if hour < 6 \<or> 23 < hour then [LATE_NIGHT hour] else [])
      in amountAlerts @ timeAlerts)"

text \<open>
  \<^verbatim>\<open>addSmartExpense(receiptData)\<close>: builds the expense, pushes it on \<^verbatim>\<open>expenseDB\<close>,
  then runs the detection. \<open>when\<close> is the value of
  \<^verbatim>\<open>new Date(receiptData.date || Date.now())\<close>. The result is the new database, the
  expense and the alerts that are logged.
\<close>

record receipt =
  rc_merchant :: string
  rc_first_item :: "string option"
  rc_total :: rat
  rc_category :: "string option"

definition addSmartExpense ::
  "(int \<Rightarrow> int) \<Rightarrow> expense list \<Rightarrow> receipt \<Rightarrow> js_date \<Rightarrow> expense list \<times> expense \<times> alert list" where
  "addSmartExpense localTZA expenseDB receiptData when =
     (let e = \<lparr> exp_name =
                   rc_merchant receiptData @ '' - '' @
                   (case or_str (rc_first_item receiptData) (Some ''Purchase'') of
                      None \<Rightarrow> [] | Some n \<Rightarrow> n),
                 exp_amount = rc_total receiptData,
                 exp_category = rc_category receiptData,
                 exp_date = when \<rparr>;
          expenseDB' = expenseDB @ [e];
          alerts = detectAnomalies localTZA expenseDB' e
      in (expenseDB', e, alerts))"

text \<open>An alert list holds an "unusual amount" alert, a "late night" alert.\<close>

definition has_unusual :: "alert list \<Rightarrow> bool" where
  "has_unusual alerts = list_ex (\<lambda>a. case a of UNUSUAL _ _ \<Rightarrow> True | _ \<Rightarrow> False) alerts"

definition has_late_night :: "alert list \<Rightarrow> bool" where
  "has_late_night alerts = list_ex (\<lambda>a. case a of LATE_NIGHT _ \<Rightarrow> True | _ \<Rightarrow> False) alerts"

text \<open>The amounts of the expenses already stored under a category.\<close>

definition prior_amounts :: "expense list \<Rightarrow> string option \<Rightarrow> rat list" where
  "prior_amounts db c = map exp_amount (filter (\<lambda>x. exp_category x = c) db)"

text \<open>
  The amount check in the specification's words: the mean of the prior expenses of the
  category, the new one excluded; an alert when the new amount exceeds twice that mean,
  none without prior history.
\<close>

definition claimed_amount_alert :: "rat list \<Rightarrow> rat \<Rightarrow> bool" where
  "claimed_amount_alert priorAmounts a =
     (priorAmounts \<noteq> [] \<and> 2 * (sum_list priorAmounts / of_nat (length priorAmounts)) < a)"

section \<open>Model router and inference gateway (EnhancedAIService)\<close>

datatype client = GithubAI | GroqClient

record model_config =
  cfg_model :: string
  cfg_client :: client
  cfg_type :: string

text \<open>\<^verbatim>\<open>getOptimalModel\<close>: the routing table, with the conversation model for an unknown task.\<close>

definition getOptimalModel :: "string \<Rightarrow> model_config" where
  "getOptimalModel task =
     (if task = ''expense-extraction'' then
        \<lparr>cfg_model = ''openai/gpt-4o'', cfg_client = GithubAI, cfg_type = ''github''\<rparr>
      else if task = ''spending-analysis'' then
        \<lparr>cfg_model = ''deepseek/deepseek-v3-0324'', cfg_client = GithubAI, cfg_type = ''github''\<rparr>
      else if task = ''receipt-ocr'' then
        \<lparr>cfg_model = ''openai/gpt-4o'', cfg_client = GithubAI, cfg_type = ''github''\<rparr>
      else if task = ''voice-to-text'' then
        \<lparr>cfg_model = ''openai/whisper-1'', cfg_client = GithubAI, cfg_type = ''github''\<rparr>
      else if task = ''backup'' then
        \<lparr>cfg_model = ''llama-3.3-70b-versatile'', cfg_client = GroqClient, cfg_type = ''groq''\<rparr>
      else
        \<lparr>cfg_model = ''openai/gpt-4o-mini'', cfg_client = GithubAI, cfg_type = ''github''\<rparr>)"

text \<open>
  The argument of \<^verbatim>\<open>client.chat.completions.create\<close>. Messages and tools are passed
  through untouched, so their types are left open.
\<close>

record ('m, 't) request =
  req_model :: string
  req_messages :: "'m list"
  req_tools :: "'t list option"
  req_tool_choice :: "string option"

text \<open>
  What the services read of a completion: the \<^verbatim>\<open>message.content\<close> of each choice
  (\<open>None\<close> for \<^verbatim>\<open>null\<close>) and \<^verbatim>\<open>usage.total_tokens\<close>.
\<close>

record completion =
  choices :: "string option list"
  total_tokens :: "nat option"

text \<open>
  The providers are outside the program: \<open>respond n c r\<close> is the outcome of the \<open>n\<close>-th
  call a request issues, sent to client \<open>c\<close> with argument \<open>r\<close>; \<open>Inl\<close> is a rejected
  promise with its error message.
\<close>

type_synonym ('m, 't) provider = "nat \<Rightarrow> client \<Rightarrow> ('m, 't) request \<Rightarrow> string + completion"

definition tool_choice :: "'t list option \<Rightarrow> string option" where
  "tool_choice tools = (case tools of None \<Rightarrow> None | Some _ \<Rightarrow> Some ''auto'')"

text \<open>
  The first call of \<^verbatim>\<open>callAIWithBestModel\<close> (both branches of the test on
  \<^verbatim>\<open>config.type\<close> issue the same call) and the call in its \<^verbatim>\<open>catch\<close> block.
\<close>

definition primary_call :: "string \<Rightarrow> 'm list \<Rightarrow> 't list option \<Rightarrow> client \<times> ('m, 't) request" where
  "primary_call task messages tools =
     (let config = getOptimalModel task
      in if cfg_type config = ''github'' then
           (cfg_client config,
            \<lparr>req_model = cfg_model config, req_messages = messages, req_tools = tools,
              req_tool_choice = tool_choice tools\<rparr>)
         else
           (cfg_client config,
            \<lparr>req_model = cfg_model config, req_messages = messages, req_tools = tools,
              req_tool_choice = tool_choice tools\<rparr>))"

definition fallback_call :: "'m list \<Rightarrow> 't list option \<Rightarrow> client \<times> ('m, 't) request" where
  "fallback_call messages tools =
     (let fallback = getOptimalModel ''backup''
      in (cfg_client fallback,
          \<lparr>req_model = cfg_model fallback, req_messages = messages, req_tools = tools,
            req_tool_choice = tool_choice tools\<rparr>))"

text \<open>
  \<^verbatim>\<open>callAIWithBestModel\<close>: the response or the error thrown, and the calls made, in
  order.
\<close>

definition callAIWithBestModel ::
  "('m, 't) provider \<Rightarrow> string \<Rightarrow> 'm list \<Rightarrow> 't list option \<Rightarrow>
   (string + completion) \<times> (client \<times> ('m, 't) request) list" where
  "callAIWithBestModel respond task messages tools =
     (let primary = primary_call task messages tools
      in case respond 0 (fst primary) (snd primary) of
           Inr response \<Rightarrow> (Inr response, [primary])
         | Inl error \<Rightarrow>
             (let second = fallback_call messages tools
              in case respond 1 (fst second) (snd second) of
                   Inr fallbackResponse \<Rightarrow> (Inr fallbackResponse, [primary, second])
                 | Inl fallbackError \<Rightarrow> (Inl fallbackError, [primary, second])))"

text \<open>
  What the specification asks of a response of a provider: the services read
  \<^verbatim>\<open>choices[0].message.content\<close>, so a response without a first choice has not the
  shape they expect. A call fails, in the specification's sense, when it is rejected or
  when its response is of the wrong shape.
\<close>

definition schema_compatible :: "completion \<Rightarrow> bool" where
  "schema_compatible r \<longleftrightarrow> choices r \<noteq> []"

definition call_fails :: "string + completion \<Rightarrow> bool" where
  "call_fails outcome = (case outcome of Inl e \<Rightarrow> True | Inr r \<Rightarrow> \<not> schema_compatible r)"

section \<open>Intent classification (EnhancedAIService)\<close>

text \<open>
  The value \<^verbatim>\<open>JSON.parse\<close> returns. A property read gives \<open>None\<close> for
  \<^verbatim>\<open>undefined\<close>; reading a property of \<^verbatim>\<open>undefined\<close> or \<^verbatim>\<open>null\<close> throws
  a TypeError. The classifier reads no property that a string, a number or an array has.
\<close>

datatype json =
    JNull
  | JBool bool
  | JNumber rat
  | JString string
  | JArray "json list"
  | JObject "(string \<times> json) list"

datatype js_error = ProviderFailure string | SyntaxError | TypeError

fun truthy :: "json option \<Rightarrow> bool" where
  "truthy None = False"
| "truthy (Some JNull) = False"
| "truthy (Some (JBool b)) = b"
| "truthy (Some (JNumber n)) = (n \<noteq> 0)"
| "truthy (Some (JString s)) = (s \<noteq> [])"
| "truthy (Some (JArray _)) = True"
| "truthy (Some (JObject _)) = True"

fun get_prop :: "json option \<Rightarrow> string \<Rightarrow> js_error + json option" where
  "get_prop None k = Inl TypeError"
| "get_prop (Some JNull) k = Inl TypeError"
| "get_prop (Some (JObject kvs)) k = Inr (map_of kvs k)"
| "get_prop (Some _) k = Inr None"

text \<open>\<^verbatim>\<open>a || b\<close> on values.\<close>

definition or_else :: "json option \<Rightarrow> json option \<Rightarrow> json option" where
  "or_else a b = (if truthy a then a else b)"

text \<open>Sequencing of steps that may throw.\<close>

definition try_bind :: "'e + 'a \<Rightarrow> ('a \<Rightarrow> 'e + 'b) \<Rightarrow> 'e + 'b" where
  "try_bind m f = (case m of Inl e \<Rightarrow> Inl e | Inr x \<Rightarrow> f x)"

subsection \<open>Cleaning the provider's text\<close>

text \<open>
  \<^verbatim>\<open>content.replace(/```json\s*/g, "").replace(/```\s*/g, "").trim()\<close>, on byte
  strings with the ASCII white space characters.
\<close>

definition is_space :: "char \<Rightarrow> bool" where
  "is_space c = (c \<in> set [CHR '' '', CHR 0x09, CHR 0x0A, CHR 0x0B, CHR 0x0C, CHR 0x0D])"

text \<open>Every occurrence of \<open>pat\<close>, with the white space after it, removed, left to right.\<close>

function strip_all :: "string \<Rightarrow> string \<Rightarrow> string" where
  "strip_all pat [] = []"
| "strip_all pat (c # cs) =
     (if pat \<noteq> [] \<and> prefix pat (c # cs)
      then strip_all pat (dropWhile is_space (drop (length pat) (c # cs)))
      else c # strip_all pat cs)"
  by pat_completeness auto
termination
proof (relation "measure (\<lambda>(pat, s). length s)")
  fix pat :: string and c cs
  assume "pat \<noteq> [] \<and> prefix pat (c # cs)"
  then have "0 < length pat" by simp
  moreover have "length (dropWhile is_space (drop (length pat) (c # cs)))
      \<le> length (drop (length pat) (c # cs))"
    by (rule length_dropWhile_le)
  ultimately show "((pat, dropWhile is_space (drop (length pat) (c # cs))), (pat, c # cs))
      \<in> measure (\<lambda>(pat, s). length s)"
    by (cases pat) auto
qed simp_all

definition trim :: "string \<Rightarrow> string" where
  "trim s = rev (dropWhile is_space (rev (dropWhile is_space s)))"

definition fence :: string where
  "fence = [CHR 0x60, CHR 0x60, CHR 0x60]"

definition clean_content :: "string \<Rightarrow> string" where
  "clean_content content = trim (strip_all fence (strip_all (fence @ ''json'') content))"

text \<open>
  \<^verbatim>\<open>response.choices[0].message.content || "{}"\<close>: reading \<^verbatim>\<open>message\<close> of a
  missing first choice throws.
\<close>

definition first_content :: "completion \<Rightarrow> js_error + string" where
  "first_content response =
     (case choices response of
        [] \<Rightarrow> Inl TypeError
      | c # _ \<Rightarrow> Inr (case or_str c (Some ''{}'') of None \<Rightarrow> [] | Some s \<Rightarrow> s))"

subsection \<open>The single-expense extractor\<close>

datatype question = AskAmount | AskDescription | AskCategory "json option"

record expense_extraction =
  hasExpense :: bool
  expenseData :: "json option"
  missingFields :: "string list option"
  clarificationQuestion :: "question option"

definition no_expense :: expense_extraction where
  "no_expense =
     \<lparr>hasExpense = False, expenseData = None, missingFields = None,
       clarificationQuestion = None\<rparr>"

text \<open>
  \<^verbatim>\<open>x <= 0\<close> on a number; on another truthy value JavaScript first converts it with
  \<^verbatim>\<open>ToNumber\<close>, a parameter of the model.
\<close>

fun js_le_zero :: "jsnum \<Rightarrow> bool" where
  "js_le_zero (Num a) = (a \<le> 0)"
| "js_le_zero PosInfinity = False"
| "js_le_zero NegInfinity = True"
| "js_le_zero NaN = False"

definition le_zero :: "(json \<Rightarrow> jsnum) \<Rightarrow> json option \<Rightarrow> bool" where
  "le_zero ToNumber v =
     (case v of
        None \<Rightarrow> False
      | Some (JNumber n) \<Rightarrow> n \<le> 0
      | Some x \<Rightarrow> js_le_zero (ToNumber x))"

text \<open>Lines 182-195: the missing required fields, in the order they are pushed.\<close>

definition detect_missing ::
  "(json \<Rightarrow> jsnum) \<Rightarrow> json option \<Rightarrow> json option \<Rightarrow> json option \<Rightarrow> json option \<Rightarrow> string list" where
  "detect_missing ToNumber amt name description category =
     (if \<not> truthy amt \<or> le_zero ToNumber amt then [''amount''] else []) @
     (if \<not> truthy name \<and> \<not> truthy description then [''description''] else []) @
     (if \<not> truthy category then [''category''] else [])"

text \<open>Lines 197-209: the clarifying question for a list of missing fields.\<close>

definition clarification :: "string list \<Rightarrow> json option \<Rightarrow> question option" where
  "clarification missing amt =
     (if 0 < length missing then
        (if ''amount'' \<in> set missing then Some AskAmount
         else if ''description'' \<in> set missing then Some AskDescription
         else if ''category'' \<in> set missing then Some (AskCategory amt)
         else None)
      else None)"

text \<open>
  The body of the \<^verbatim>\<open>try\<close> block of \<^verbatim>\<open>extractExpenseFromMessage\<close>, from the outcome
  of the provider call on.
\<close>

definition extractExpenseFromMessage_try ::
  "(json \<Rightarrow> jsnum) \<Rightarrow> (string \<Rightarrow> json option) \<Rightarrow> string + completion \<Rightarrow>
   js_error + expense_extraction" where
  "extractExpenseFromMessage_try ToNumber JSON_parse aiResult =
     (case aiResult of
        Inl e \<Rightarrow> Inl (ProviderFailure e)
      | Inr response \<Rightarrow>
          try_bind (first_content response) (\<lambda>content.
          case JSON_parse (clean_content content) of
            None \<Rightarrow> Inl SyntaxError
          | Some result \<Rightarrow>
              try_bind (get_prop (Some result) ''hasExpense'') (\<lambda>has.
              if \<not> truthy has then Inr no_expense
              else
                try_bind (get_prop (Some result) ''expenseData'') (\<lambda>ed.
                try_bind (get_prop ed ''amount'') (\<lambda>amt.
                try_bind (get_prop ed ''name'') (\<lambda>name.
                try_bind (get_prop ed ''description'') (\<lambda>description.
                try_bind (get_prop ed ''category'') (\<lambda>category.
                  let missing = detect_missing ToNumber amt name description category
                  in Inr \<lparr>hasExpense = True, expenseData = ed,
                           missingFields = (if 0 < length missing then Some missing else None),
                           clarificationQuestion = clarification missing amt\<rparr>))))))))"

text \<open>\<^verbatim>\<open>extractExpenseFromMessage\<close>: whatever is thrown in the block is caught.\<close>

definition extractExpenseFromMessage ::
  "(json \<Rightarrow> jsnum) \<Rightarrow> (string \<Rightarrow> json option) \<Rightarrow> string + completion \<Rightarrow> expense_extraction" where
  "extractExpenseFromMessage ToNumber JSON_parse aiResult =
     (case extractExpenseFromMessage_try ToNumber JSON_parse aiResult of
        Inl error \<Rightarrow> no_expense
      | Inr r \<Rightarrow> r)"

subsection \<open>The intent classifier\<close>

record financial_extraction =
  fin_type :: json
  hasData :: bool
  fin_data :: "json option"
  isMultiple :: "json option"

definition none_extraction :: financial_extraction where
  "none_extraction =
     \<lparr>fin_type = JString ''none'', hasData = False, fin_data = None, isMultiple = None\<rparr>"

definition extractFinancialData_try ::
  "(string \<Rightarrow> json option) \<Rightarrow> string + completion \<Rightarrow> js_error + financial_extraction" where
  "extractFinancialData_try JSON_parse aiResult =
     (case aiResult of
        Inl e \<Rightarrow> Inl (ProviderFailure e)
      | Inr response \<Rightarrow>
          try_bind (first_content response) (\<lambda>content.
          case JSON_parse (clean_content content) of
            None \<Rightarrow> Inl SyntaxError
          | Some result \<Rightarrow>
              try_bind (get_prop (Some result) ''type'') (\<lambda>ty.
              case ty of
                None \<Rightarrow> Inr none_extraction
              | Some t \<Rightarrow>
                  if \<not> truthy ty \<or> t = JString ''none'' then Inr none_extraction
                  else
                    try_bind (get_prop (Some result) ''data'') (\<lambda>d.
                    try_bind (get_prop (Some result) ''isMultiple'') (\<lambda>m.
                      Inr \<lparr>fin_type = t, hasData = True, fin_data = d,
                           isMultiple = or_else m (Some (JBool False))\<rparr>)))))"

definition extractFinancialData ::
  "(string \<Rightarrow> json option) \<Rightarrow> string + completion \<Rightarrow> financial_extraction" where
  "extractFinancialData JSON_parse aiResult =
     (case extractFinancialData_try JSON_parse aiResult of
        Inl error \<Rightarrow> none_extraction
      | Inr r \<Rightarrow> r)"

text \<open>The one field a clarifying question asks for.\<close>

fun asked_field :: "question \<Rightarrow> string" where
  "asked_field AskAmount = ''amount''"
| "asked_field AskDescription = ''description''"
| "asked_field (AskCategory _) = ''category''"

text \<open>A value that is absent: \<^verbatim>\<open>undefined\<close> or \<^verbatim>\<open>null\<close>.\<close>

definition absent :: "json option \<Rightarrow> bool" where
  "absent v = (v = None \<or> v = Some JNull)"

section \<open>Conversation state machine (ChatbotService)\<close>

text \<open>
  The pending expense of a conversation and the names of its missing fields
  (\<^verbatim>\<open>ConversationState\<close>; the unused \<^verbatim>\<open>lastContext\<close> is left out).
\<close>

record pending_expense =
  pe_name :: "string option"
  pe_amount :: "rat option"
  pe_category :: "string option"
  pe_description :: "string option"
  pe_merchant :: "string option"
  pe_location :: "string option"

record conversation_state =
  cs_userId :: string
  cs_pendingExpense :: "pending_expense option"
  cs_missingFields :: "string list option"

text \<open>\<^verbatim>\<open>{ userId }\<close>: a state without a pending expense.\<close>

definition cleared :: "string \<Rightarrow> conversation_state" where
  "cleared u = \<lparr>cs_userId = u, cs_pendingExpense = None, cs_missingFields = None\<rparr>"

text \<open>The texts the chat operation answers with, by template.\<close>

datatype chat_text =
    ExpenseSaved
  | FailedToSaveExpense string
  | CompletionSaved
  | CouldNotSave string
  | HowMuchDidYouSpend
  | WhatDidYouBuy
  | WhatCategory "rat option"
  | MoreDetails
  | NoAmountFound
  | ChooseCategory
  | DidNotUnderstandInformation
  | GreetingText
  | DidNotUnderstand
  | NotSure
  | SorryError
  | HandlerText string

record chat_response =
  cr_response :: chat_text
  cr_action :: "string option"
  cr_data :: "json option"

text \<open>
  What lies outside the service, for one turn: the outcome of the provider call that
  \<^verbatim>\<open>extractFinancialData\<close> makes, \<^verbatim>\<open>JSON.parse\<close>, the persistence of an expense
  (\<^verbatim>\<open>saveExpenseToDatabase\<close> on a payload other than \<^verbatim>\<open>undefined\<close> and
  \<^verbatim>\<open>null\<close>: \<open>Inr\<close> the stored row, \<open>Inl\<close> the error message), whether the chat history accepts a row, and the handlers of
  the other intents (\<open>Inl\<close> when they throw).
\<close>

record env =
  env_ai :: "string + completion"
  env_JSON_parse :: "string \<Rightarrow> json option"
  env_persist :: "string \<Rightarrow> json \<Rightarrow> string + json"
  env_chat_ok :: bool
  env_multiple :: "string \<Rightarrow> json list \<Rightarrow> js_error + chat_response"
  env_other :: "string \<Rightarrow> string \<Rightarrow> json option \<Rightarrow> js_error + chat_response"

text \<open>
  The stores the service writes: the conversation states, the expenses committed to the
  database and the saved chat rows (message, response text, intent).
\<close>

record world =
  conversationStates :: "string \<rightharpoonup> conversation_state"
  committed :: "(string \<times> json) list"
  chatRows :: "(string \<times> chat_text \<times> string option) list"

text \<open>
  \<^verbatim>\<open>saveExpenseToDatabase\<close>: it reads \<^verbatim>\<open>expenseData.category\<close> first, inside its
  \<^verbatim>\<open>try\<close>, so a payload that is \<^verbatim>\<open>undefined\<close> or \<^verbatim>\<open>null\<close> fails with the
  TypeError's message; a stored expense is one more committed entry.
\<close>

definition saveExpenseToDatabase ::
  "env \<Rightarrow> world \<Rightarrow> string \<Rightarrow> json option \<Rightarrow> (string + json) \<times> world" where
  "saveExpenseToDatabase e w u payload =
     (case payload of
        None \<Rightarrow> (Inl ''Cannot read properties of undefined'', w)
      | Some JNull \<Rightarrow> (Inl ''Cannot read properties of null'', w)
      | Some d \<Rightarrow>
          (case env_persist e u d of
             Inl err \<Rightarrow> (Inl err, w)
           | Inr row \<Rightarrow> (Inr row, w\<lparr>committed := committed w @ [(u, d)]\<rparr>)))"

text \<open>\<^verbatim>\<open>handleExpenseCreation\<close>: the payload is saved as it is.\<close>

definition handleExpenseCreation ::
  "env \<Rightarrow> world \<Rightarrow> string \<Rightarrow> json option \<Rightarrow> conversation_state \<Rightarrow> chat_response \<times> world" where
  "handleExpenseCreation e w u d state =
     (case saveExpenseToDatabase e w u d of
        (Inr row, w') \<Rightarrow>
          (\<lparr>cr_response = ExpenseSaved, cr_action = Some ''expense_saved'', cr_data = Some row\<rparr>, w')
      | (Inl err, w') \<Rightarrow>
          (\<lparr>cr_response = FailedToSaveExpense err, cr_action = None, cr_data = None\<rparr>, w'))"

subsection \<open>Completing a pending expense\<close>

text \<open>
  The first match of \<^verbatim>\<open>/(\d+(?:\.\d{1,2})?)/\<close>, read by \<^verbatim>\<open>parseFloat\<close>: the first
  run of digits, with up to two digits after a point that follows it, as the double
  nearest to that decimal.
\<close>

definition digits_value :: "string \<Rightarrow> nat" where
  "digits_value ds = foldl (\<lambda>n c. 10 * n + digit_value c) 0 ds"

definition number_at :: "string \<Rightarrow> rat" where
  "number_at s =
     (let whole = takeWhile is_digit s;
          rest = dropWhile is_digit s;
          frac = (case rest of
                    [] \<Rightarrow> []
                  | c # r \<Rightarrow> if c = CHR ''.'' then takeWhile is_digit (take 2 r) else [])
      in fl (of_nat (digits_value whole) + of_nat (digits_value frac) / 10 ^ length frac))"

fun first_number :: "string \<Rightarrow> rat option" where
  "first_number [] = None"
| "first_number (c # cs) = (if is_digit c then Some (number_at (c # cs)) else first_number cs)"

text \<open>\<^verbatim>\<open>toLowerCase()\<close> on ASCII letters.\<close>

definition lower_char :: "char \<Rightarrow> char" where
  "lower_char c =
     (case map_of (zip ''ABCDEFGHIJKLMNOPQRSTUVWXYZ'' ''abcdefghijklmnopqrstuvwxyz'') c of
        None \<Rightarrow> c
      | Some l \<Rightarrow> l)"

definition toLowerCase :: "string \<Rightarrow> string" where
  "toLowerCase s = map lower_char s"

text \<open>
  The first match of
  \<^verbatim>\<open>/(food|transport|entertainment|shopping|bills|healthcare|utilities|other)/\<close>.
\<close>

definition category_names :: "string list" where
  "category_names =
     [''food'', ''transport'', ''entertainment'', ''shopping'', ''bills'', ''healthcare'',
      ''utilities'', ''other'']"

fun find_category :: "string \<Rightarrow> string option" where
  "find_category [] = None"
| "find_category (c # cs) =
     (case find (\<lambda>k. prefix k (c # cs)) category_names of
        Some k \<Rightarrow> Some k
      | None \<Rightarrow> find_category cs)"

text \<open>\<^verbatim>\<open>{ ...pendingExpense, amount: pendingExpense.amount }\<close> as the payload to save.\<close>

definition field_json :: "string \<Rightarrow> string option \<Rightarrow> (string \<times> json) list" where
  "field_json k v = (case v of None \<Rightarrow> [] | Some s \<Rightarrow> [(k, JString s)])"

definition pending_json :: "pending_expense \<Rightarrow> json" where
  "pending_json p =
     JObject
       (field_json ''name'' (pe_name p) @
        (case pe_amount p of None \<Rightarrow> [] | Some a \<Rightarrow> [(''amount'', JNumber a)]) @
        field_json ''category'' (pe_category p) @
        field_json ''description'' (pe_description p) @
        field_json ''merchant'' (pe_merchant p) @
        field_json ''location'' (pe_location p))"

definition getQuestionForMissingField :: "string \<Rightarrow> pending_expense \<Rightarrow> chat_text" where
  "getQuestionForMissingField field p =
     (if field = ''amount'' then HowMuchDidYouSpend
      else if field = ''description'' then WhatDidYouBuy
      else if field = ''category'' then WhatCategory (pe_amount p)
      else MoreDetails)"

record completion_result =
  completed :: bool
  co_response :: chat_text
  co_state :: conversation_state
  co_expense :: "json option"

text \<open>
  \<^verbatim>\<open>handleExpenseCompletion\<close>, one step for each of its three blocks. A block either
  returns (\<open>Inr\<close>) or falls through to the next with the pending expense as it has
  changed it (\<open>Inl\<close>); \<open>missing\<close> is the list read at the start.
\<close>

definition save_pending ::
  "env \<Rightarrow> world \<Rightarrow> string \<Rightarrow> pending_expense \<Rightarrow> (string + json) \<times> world" where
  "save_pending e w u p = saveExpenseToDatabase e w u (Some (pending_json p))"

definition saved_result :: "string \<Rightarrow> json \<Rightarrow> completion_result" where
  "saved_result u row =
     \<lparr>completed = True, co_response = CompletionSaved, co_state = cleared u,
       co_expense = Some row\<rparr>"

definition amount_block ::
  "env \<Rightarrow> world \<Rightarrow> conversation_state \<Rightarrow> pending_expense \<Rightarrow> string list \<Rightarrow> string \<Rightarrow>
   (pending_expense \<times> world) + (completion_result \<times> world)" where
  "amount_block e w state p missing message =
     (if ''amount'' \<in> set missing then
        (case first_number message of
           None \<Rightarrow>
             Inr (\<lparr>completed = False, co_response = NoAmountFound, co_state = state,
                    co_expense = None\<rparr>, w)
         | Some a \<Rightarrow>
             (let p' = p\<lparr>pe_amount := Some a\<rparr>;
                  newMissingFields = filter (\<lambda>f. f \<noteq> ''amount'') missing
              in if length newMissingFields = 0 then
                   (if truthy_num (pe_amount p') then
                      (case save_pending e w (cs_userId state) p' of
                         (Inr row, w') \<Rightarrow> Inr (saved_result (cs_userId state) row, w')
                       | (Inl err, w') \<Rightarrow>
                           Inr (\<lparr>completed = False, co_response = CouldNotSave err,
                                  co_state = cleared (cs_userId state), co_expense = None\<rparr>, w'))
                    else Inl (p', w))
                 else
                   Inr (\<lparr>completed = False,
                          co_response = getQuestionForMissingField (hd newMissingFields) p',
                          co_state = state\<lparr>cs_pendingExpense := Some p',
                                            cs_missingFields := Some newMissingFields\<rparr>,
                          co_expense = None\<rparr>, w)))
      else Inl (p, w))"

definition description_block ::
  "env \<Rightarrow> world \<Rightarrow> conversation_state \<Rightarrow> pending_expense \<Rightarrow> string list \<Rightarrow> string \<Rightarrow>
   (pending_expense \<times> world) + (completion_result \<times> world)" where
  "description_block e w state p missing message =
     (if ''description'' \<in> set missing \<and> \<not> truthy_str (pe_name p) then
        (let p' = p\<lparr>pe_name := Some (trim message), pe_description := Some (trim message)\<rparr>;
             newMissingFields = filter (\<lambda>f. f \<noteq> ''description'') missing
         in if length newMissingFields = 0 then
              (if truthy_num (pe_amount p') then
                 (case save_pending e w (cs_userId state) p' of
                    (Inr row, w') \<Rightarrow> Inr (saved_result (cs_userId state) row, w')
                  | (Inl err, w') \<Rightarrow> Inl (p', w'))
               else Inl (p', w))
            else
              Inr (\<lparr>completed = False,
                     co_response = getQuestionForMissingField (hd newMissingFields) p',
                     co_state = state\<lparr>cs_pendingExpense := Some p',
                                       cs_missingFields := Some newMissingFields\<rparr>,
                     co_expense = None\<rparr>, w))
      else Inl (p, w))"

definition category_block ::
  "env \<Rightarrow> world \<Rightarrow> conversation_state \<Rightarrow> pending_expense \<Rightarrow> string list \<Rightarrow> string \<Rightarrow>
   (pending_expense \<times> world) + (completion_result \<times> world)" where
  "category_block e w state p missing message =
     (if ''category'' \<in> set missing then
        (case find_category (toLowerCase message) of
           None \<Rightarrow>
             Inr (\<lparr>completed = False, co_response = ChooseCategory,
                    co_state = state\<lparr>cs_pendingExpense := Some p\<rparr>, co_expense = None\<rparr>, w)
         | Some c \<Rightarrow>
             (let p' = p\<lparr>pe_category := Some c\<rparr>
              in if truthy_num (pe_amount p') then
                   (case save_pending e w (cs_userId state) p' of
                      (Inr row, w') \<Rightarrow> Inr (saved_result (cs_userId state) row, w')
                    | (Inl err, w') \<Rightarrow> Inl (p', w'))
                 else Inl (p', w)))
      else Inl (p, w))"

text \<open>
  The pending expense is an object the state refers to: what a block assigned to it is
  seen by whoever holds the state, also when the block falls through.
\<close>

definition handleExpenseCompletion ::
  "env \<Rightarrow> world \<Rightarrow> conversation_state \<Rightarrow> pending_expense \<Rightarrow> string list \<Rightarrow> string \<Rightarrow>
   completion_result \<times> world" where
  "handleExpenseCompletion e w state pendingExpense missing message =
     (case amount_block e w state pendingExpense missing message of
        Inr r \<Rightarrow> r
      | Inl (p1, w1) \<Rightarrow>
          (case description_block e w1 state p1 missing message of
             Inr r \<Rightarrow> r
           | Inl (p2, w2) \<Rightarrow>
               (case category_block e w2 state p2 missing message of
                  Inr r \<Rightarrow> r
                | Inl (p3, w3) \<Rightarrow>
                    (\<lparr>completed = False, co_response = DidNotUnderstandInformation,
                       co_state = state\<lparr>cs_pendingExpense := Some p3\<rparr>,
                       co_expense = None\<rparr>, w3))))"

subsection \<open>The chat operation\<close>

definition greetings :: "string list" where
  "greetings =
     [''hi'', ''hello'', ''hey'', ''good morning'', ''good afternoon'', ''good evening'',
      ''greetings'', ''what'' @ [CHR 0x27] @ ''s up'', ''sup'', ''howdy'']"

text \<open>
  \<^verbatim>\<open>chatHistory.saveChatMessage\<close> and the \<^verbatim>\<open>catch\<close> of \<^verbatim>\<open>processChatMessage\<close>:
  when the row cannot be saved the operation answers with the error text and no action,
  and tries to save that.
\<close>

definition save_and_return ::
  "env \<Rightarrow> world \<Rightarrow> string \<Rightarrow> chat_response \<Rightarrow> string option \<Rightarrow> chat_response \<times> world" where
  "save_and_return e w message r intent =
     (if env_chat_ok e
      then (r, w\<lparr>chatRows := chatRows w @ [(message, cr_response r, intent)]\<rparr>)
      else (\<lparr>cr_response = SorryError, cr_action = None, cr_data = None\<rparr>, w))"

definition is_array :: "json option \<Rightarrow> bool" where
  "is_array v = (case v of Some (JArray _) \<Rightarrow> True | _ \<Rightarrow> False)"

definition array_items :: "json option \<Rightarrow> json list" where
  "array_items v = (case v of Some (JArray xs) \<Rightarrow> xs | _ \<Rightarrow> [])"

text \<open>The routing \<^verbatim>\<open>switch\<close> on the extracted type.\<close>

definition route ::
  "env \<Rightarrow> world \<Rightarrow> string \<Rightarrow> financial_extraction \<Rightarrow> conversation_state \<Rightarrow>
   js_error + (chat_response \<times> string \<times> world)" where
  "route e w u x state =
     (if fin_type x = JString ''expense'' then
        (if truthy (isMultiple x) \<and> is_array (fin_data x) then
           (case env_multiple e u (array_items (fin_data x)) of
              Inl err \<Rightarrow> Inl err
            | Inr r \<Rightarrow> Inr (r, ''expense'', w))
         else
           (case handleExpenseCreation e w u (fin_data x) state of
              (r, w') \<Rightarrow> Inr (r, ''expense'', w')))
      else if fin_type x \<in> JString ` set [''income'', ''budget'', ''goal'', ''analytics'', ''advice'']
      then
        (case fin_type x of
           JString t \<Rightarrow>
             (case env_other e t u (fin_data x) of
                Inl err \<Rightarrow> Inl err
              | Inr r \<Rightarrow> Inr (r, t, w))
         | _ \<Rightarrow> Inl TypeError)
      else Inr (\<lparr>cr_response = NotSure, cr_action = None, cr_data = None\<rparr>, ''unknown'', w))"

definition processChatMessage ::
  "env \<Rightarrow> world \<Rightarrow> string \<Rightarrow> string \<Rightarrow> chat_response \<times> world" where
  "processChatMessage e w u message =
     (let state = (case conversationStates w u of None \<Rightarrow> cleared u | Some s \<Rightarrow> s)
      in case (cs_pendingExpense state, cs_missingFields state) of
           (Some pendingExpense, Some missing) \<Rightarrow>
             (case handleExpenseCompletion e w state pendingExpense missing message of
                (completionResult, w1) \<Rightarrow>
                  (let w2 = w1\<lparr>conversationStates :=
                               (conversationStates w1)(u \<mapsto> co_state completionResult)\<rparr>
                   in if completed completionResult then
                        save_and_return e w2 message
                          \<lparr>cr_response = co_response completionResult,
                            cr_action = Some ''expense_saved'',
                            cr_data = co_expense completionResult\<rparr>
                          (Some ''expense_completion'')
                      else
                        save_and_return e w2 message
                          \<lparr>cr_response = co_response completionResult,
                            cr_action = Some ''pending'', cr_data = None\<rparr>
                          (Some ''expense_pending'')))
         | _ \<Rightarrow>
             if toLowerCase (trim message) \<in> set greetings then
               save_and_return e w message
                 \<lparr>cr_response = GreetingText, cr_action = Some ''greeting'', cr_data = None\<rparr>
                 None
             else
               (let extractionResult = extractFinancialData (env_JSON_parse e) (env_ai e)
                in if \<not> hasData extractionResult then
                     save_and_return e w message
                       \<lparr>cr_response = DidNotUnderstand, cr_action = None, cr_data = None\<rparr>
                       (Some ''unknown'')
                   else
                     (case route e w u extractionResult state of
                        Inl err \<Rightarrow>
                          save_and_return e w message
                            \<lparr>cr_response = SorryError, cr_action = None, cr_data = None\<rparr>
                            (Some ''error'')
                      | Inr (r, intent, w') \<Rightarrow> save_and_return e w' message r (Some intent))))"

section \<open>Statement ingestion (bank statement processor)\<close>

text \<open>
  A statement arrives as a file name and the rows the file holds, a list of rows of
  cells; a cell is the text \<^verbatim>\<open>String(cell)\<close>. For a workbook the rows are what
  \<^verbatim>\<open>XLSX.utils.sheet_to_json(worksheet, {header: 1})\<close> returns for the first sheet, for
  a text they are the records that \<^verbatim>\<open>csv-parse\<close> reads (empty lines left out).
\<close>

record raw_transaction =
  rt_name :: string
  rt_bank :: string
  rt_amount :: rat
  rt_date :: string
  rt_status :: string
  rt_isIncome :: bool

text \<open>\<^verbatim>\<open>s.includes(k)\<close>.\<close>

fun str_includes :: "string \<Rightarrow> string \<Rightarrow> bool" where
  "str_includes [] k = (k = [])"
| "str_includes (c # cs) k = (prefix k (c # cs) \<or> str_includes cs k)"

text \<open>
  \<^verbatim>\<open>parseFloat\<close> of a string made of digits, points and minus signs (what
  \<^verbatim>\<open>replace(/[^-0-9.]/g, '')\<close> leaves): an optional sign, digits, an optional point and
  digits, as the double nearest to that decimal; \<open>None\<close> is NaN.
\<close>

definition unsigned_value :: "string \<Rightarrow> rat option" where
  "unsigned_value s =
     (let whole = takeWhile is_digit s;
          rest = dropWhile is_digit s;
          frac = (case rest of
                    [] \<Rightarrow> []
                  | c # r \<Rightarrow> if c = CHR ''.'' then takeWhile is_digit r else [])
      in if whole = [] \<and> frac = [] then None
         else Some (fl (of_nat (digits_value whole) + of_nat (digits_value frac) / 10 ^ length frac)))"

definition parseFloat :: "string \<Rightarrow> rat option" where
  "parseFloat s =
     (case s of
        [] \<Rightarrow> None
      | c # r \<Rightarrow>
          if c = CHR ''-'' then map_option uminus (unsigned_value r) else unsigned_value s)"

definition amount_chars :: "string \<Rightarrow> string" where
  "amount_chars s = filter (\<lambda>c. c = CHR ''-'' \<or> is_digit c \<or> c = CHR ''.'') s"

text \<open>\<^verbatim>\<open>parseTransactionRow\<close>: the columns are date, merchant, amount, status, bank.\<close>

definition parseTransactionRow :: "string list \<Rightarrow> raw_transaction option" where
  "parseTransactionRow row =
     (case row of
        dateStr # merchant # amountStr # statusStr # bank # _ \<Rightarrow>
          (case map_option abs (parseFloat (amount_chars amountStr)) of
             None \<Rightarrow> None
           | Some a \<Rightarrow>
               if a = 0 then None
               else Some \<lparr>rt_name = trim merchant, rt_bank = trim bank, rt_amount = a,
                          rt_date = trim dateStr, rt_status = trim statusStr,
                          rt_isIncome = (\<not> str_includes amountStr ''-'')\<rparr>)
      | _ \<Rightarrow> None)"

text \<open>
  \<^verbatim>\<open>parseTransactionData\<close>: the first row is the header; a row of fewer than five
  cells, or one that does not parse, is passed over.
\<close>

definition parseTransactionData :: "string list list \<Rightarrow> raw_transaction list" where
  "parseTransactionData data =
     List.map_filter (\<lambda>row. if length row < 5 then None else parseTransactionRow row) (drop 1 data)"

datatype tx_type = Income | Expense

record processed_transaction =
  tx_type :: tx_type
  tx_name :: string
  tx_amount :: rat
  tx_date :: string
  tx_category :: "string option"
  tx_merchant :: "string option"
  tx_description :: string
  tx_isRecurring :: bool
  tx_sourceType :: "string option"

text \<open>
  \<^verbatim>\<open>cleanMerchantName\<close>: characters other than word characters, white space and
  the hyphen are removed, each run of white space becomes one space, the ends are trimmed
  and the first 50 characters are kept.
\<close>

definition is_word :: "char \<Rightarrow> bool" where
  "is_word c =
     (c \<in> set (''abcdefghijklmnopqrstuvwxyz'' @ ''ABCDEFGHIJKLMNOPQRSTUVWXYZ'' @
                ''0123456789'' @ ''_''))"

fun collapse_spaces :: "string \<Rightarrow> string" where
  "collapse_spaces [] = []"
| "collapse_spaces (c # cs) =
     (if is_space c then
        (case cs of
           [] \<Rightarrow> [CHR '' '']
         | d # _ \<Rightarrow> if is_space d then collapse_spaces cs else CHR '' '' # collapse_spaces cs)
      else c # collapse_spaces cs)"

definition cleanMerchantName :: "string \<Rightarrow> string" where
  "cleanMerchantName merchant =
     take 50 (trim (collapse_spaces
       (filter (\<lambda>c. is_word c \<or> is_space c \<or> c = CHR ''-'') merchant)))"

text \<open>\<^verbatim>\<open>intelligentCategorization\<close>: the rule table, in the order of its keys.\<close>

definition rules :: "(string \<times> string list) list" where
  "rules =
     [(''food'', [''zepto'', ''swiggy'', ''zomato'', ''dominos'', ''mcdonalds'', ''kfc'',
                  ''meesho'', ''grocery'']),
      (''transport'', [''uber'', ''ola'', ''metro'', ''petrol'', ''fuel'', ''gas'']),
      (''entertainment'', [''netflix'', ''amazon prime'', ''spotify'', ''bookmyshow'', ''cinema'']),
      (''shopping'', [''amazon'', ''flipkart'', ''myntra'', ''ajio'', ''meesho'', ''fashion'']),
      (''bills'', [''jio'', ''airtel'', ''electricity'', ''gas'', ''water'', ''internet'',
                   ''recharge'']),
      (''healthcare'', [''pharma'', ''medicose'', ''hospital'', ''clinic'', ''doctor'']),
      (''utilities'', [''electricity'', ''water'', ''gas'', ''internet'', ''mobile'']),
      (''education'', [''education'', ''course'', ''training'', ''school'', ''college''])]"

definition intelligentCategorization :: "string \<Rightarrow> string" where
  "intelligentCategorization merchant =
     (case find (\<lambda>(category, keywords). list_ex (str_includes (toLowerCase merchant)) keywords) rules of
        Some (category, keywords) \<Rightarrow> category
      | None \<Rightarrow> ''other'')"

definition detectIncomeSource :: "string \<Rightarrow> string" where
  "detectIncomeSource merchant =
     (let m = toLowerCase merchant
      in if str_includes m ''salary'' \<or> str_includes m ''pay'' then ''salary''
         else if str_includes m ''freelance'' \<or> str_includes m ''work'' then ''freelance''
         else if str_includes m ''business'' \<or> str_includes m ''profit'' then ''business''
         else if str_includes m ''investment'' \<or> str_includes m ''dividend'' then ''investment''
         else if str_includes m ''rent'' \<or> str_includes m ''rental'' then ''rental''
         else ''other'')"

definition detectRecurring :: "string \<Rightarrow> bool" where
  "detectRecurring merchant =
     list_ex (str_includes (toLowerCase merchant))
       [''salary'', ''rent'', ''subscription'', ''recharge'', ''sip'', ''emi'']"

text \<open>
  \<^verbatim>\<open>categorizeTransaction\<close>; the date is kept as the text of the cell. It never
  returns \<^verbatim>\<open>null\<close>.
\<close>

definition categorizeTransaction :: "raw_transaction \<Rightarrow> processed_transaction" where
  "categorizeTransaction rawTx =
     (let a = \<bar>rt_amount rawTx\<bar>;
          merchant = trim (rt_name rawTx)
      in if rt_isIncome rawTx then
           \<lparr>tx_type = Income, tx_name = ''Income from '' @ merchant, tx_amount = a,
             tx_date = rt_date rawTx, tx_category = None, tx_merchant = None,
             tx_description = ''Bank transfer from '' @ merchant,
             tx_isRecurring = detectRecurring merchant,
             tx_sourceType = Some (detectIncomeSource merchant)\<rparr>
         else
           \<lparr>tx_type = Expense, tx_name = cleanMerchantName merchant, tx_amount = a,
             tx_date = rt_date rawTx, tx_category = Some (intelligentCategorization merchant),
             tx_merchant = Some merchant,
             tx_description = ''Payment to '' @ merchant,
             tx_isRecurring = detectRecurring merchant,
             tx_sourceType = None\<rparr>)"

text \<open>\<^verbatim>\<open>toUpperCase()\<close> on ASCII letters.\<close>

definition upper_char :: "char \<Rightarrow> char" where
  "upper_char c =
     (case map_of (zip ''abcdefghijklmnopqrstuvwxyz'' ''ABCDEFGHIJKLMNOPQRSTUVWXYZ'') c of
        None \<Rightarrow> c
      | Some u \<Rightarrow> u)"

definition toUpperCase :: "string \<Rightarrow> string" where
  "toUpperCase s = map upper_char s"

definition failed_status :: "raw_transaction \<Rightarrow> bool" where
  "failed_status rawTx = str_includes (toUpperCase (rt_status rawTx)) ''FAILED''"

text \<open>
  The import result. \<^verbatim>\<open>categories\<close> is an object used as a dictionary: an association
  list in the order the keys were first written.
\<close>

record import_result =
  ir_success :: bool
  processed :: nat
  imported :: nat
  skipped :: nat
  errors :: "string list"
  ir_totalExpenses :: rat
  ir_totalIncome :: rat
  categories :: "(string \<times> rat) list"

text \<open>\<^verbatim>\<open>categories[cat] = (categories[cat] || 0) + amount\<close>.\<close>

definition add_to_category :: "(string \<times> rat) list \<Rightarrow> string \<Rightarrow> rat \<Rightarrow> (string \<times> rat) list" where
  "add_to_category cats cat a =
     (case map_of cats cat of
        None \<Rightarrow> cats @ [(cat, dadd 0 a)]
      | Some v \<Rightarrow>
          map (\<lambda>(k, x). if k = cat then (k, dadd (if x = 0 then 0 else x) a) else (k, x)) cats)"

text \<open>
  One round of the loop of \<^verbatim>\<open>processTransactionsWithAI\<close>. \<open>save tx\<close> is the outcome of
  \<^verbatim>\<open>saveTransactionToDatabase\<close>: \<open>None\<close> for success, or the error message.
\<close>

definition process_one ::
  "(processed_transaction \<Rightarrow> string option) \<Rightarrow> import_result \<Rightarrow> raw_transaction \<Rightarrow> import_result" where
  "process_one save acc rawTx =
     (let acc1 = acc\<lparr>processed := processed acc + 1\<rparr>
      in if failed_status rawTx then acc1\<lparr>skipped := skipped acc1 + 1\<rparr>
         else
           (let processedTx = categorizeTransaction rawTx
            in case save processedTx of
                 None \<Rightarrow>
                   (let acc2 = acc1\<lparr>imported := imported acc1 + 1\<rparr>
                    in if tx_type processedTx = Expense then
                         acc2\<lparr>ir_totalExpenses :=
                                dadd (ir_totalExpenses acc2) \<bar>tx_amount processedTx\<bar>,
                              categories :=
                                add_to_category (categories acc2)
                                  (case or_str (tx_category processedTx) (Some ''other'') of
                                     None \<Rightarrow> [] | Some c \<Rightarrow> c)
                                  \<bar>tx_amount processedTx\<bar>\<rparr>
                       else acc2\<lparr>ir_totalIncome :=
                                   dadd (ir_totalIncome acc2) (tx_amount processedTx)\<rparr>)
               | Some err \<Rightarrow>
                   acc1\<lparr>errors := errors acc1 @
                          [''Failed to save: '' @ tx_name processedTx @ '' - '' @ err],
                        skipped := skipped acc1 + 1\<rparr>))"

definition empty_result :: import_result where
  "empty_result =
     \<lparr>ir_success = False, processed = 0, imported = 0, skipped = 0, errors = [],
       ir_totalExpenses = 0, ir_totalIncome = 0, categories = []\<rparr>"

definition processTransactionsWithAI ::
  "(processed_transaction \<Rightarrow> string option) \<Rightarrow> raw_transaction list \<Rightarrow> import_result" where
  "processTransactionsWithAI save transactions =
     (let r = foldl (process_one save) empty_result transactions
      in r\<lparr>ir_success := (0 < imported r)\<rparr>)"

text \<open>A natural number in decimal, as a template literal prints it.\<close>

fun show_nat :: "nat \<Rightarrow> string" where
  "show_nat n =
     (if n < 10 then [''0123456789'' ! n]
      else show_nat (n div 10) @ [''0123456789'' ! (n mod 10)])"

text \<open>
  \<^verbatim>\<open>parse(csvText, {columns: false, skip_empty_lines: true, delimiter: ","})\<close>. The library
  is not part of the repository; with these options, \<^verbatim>\<open>relax_column_count\<close> not being
  set, it accepts only records that have as many fields as the first one and throws
  "Invalid Record Length" at the first other record. The line is the position of the
  record, as in a text where every record takes one line.
\<close>

definition csv_parse :: "string list list \<Rightarrow> string + string list list" where
  "csv_parse records =
     (case records of
        [] \<Rightarrow> Inr []
      | first # _ \<Rightarrow>
          (case find (\<lambda>(line, r). length r \<noteq> length first) (enumerate 1 records) of
             None \<Rightarrow> Inr records
           | Some (line, r) \<Rightarrow>
               Inl (''Invalid Record Length: expect '' @ show_nat (length first) @
                    '', got '' @ show_nat (length r) @ '' on line '' @ show_nat line)))"

text \<open>
  \<^verbatim>\<open>parseStatementFile\<close>: the reader is chosen by the end of the file name. The PDF
  reader returns no transaction at all; the CSV reader lets the error of the library
  through.
\<close>

datatype file_kind = PDF | Excel | CSV

definition file_kind :: "string \<Rightarrow> file_kind" where
  "file_kind fileName =
     (let fileExtension = toLowerCase fileName
      in if suffix ''.pdf'' fileExtension then PDF
         else if suffix ''.xlsx'' fileExtension \<or> suffix ''.xls'' fileExtension then Excel
         else CSV)"

definition parseStatementFile :: "string \<Rightarrow> string list list \<Rightarrow> string + raw_transaction list" where
  "parseStatementFile fileName rows =
     (case file_kind fileName of
        PDF \<Rightarrow> Inr []
      | Excel \<Rightarrow> Inr (parseTransactionData rows)
      | CSV \<Rightarrow> try_bind (csv_parse rows) (\<lambda>records. Inr (parseTransactionData records)))"

text \<open>
  \<^verbatim>\<open>processBankStatement\<close>: an error thrown while the file is read is caught and
  reported as the one error of an empty result.
\<close>

definition processBankStatement ::
  "(processed_transaction \<Rightarrow> string option) \<Rightarrow> string \<Rightarrow> string list list \<Rightarrow> import_result" where
  "processBankStatement save fileName rows =
     (case parseStatementFile fileName rows of
        Inl message \<Rightarrow> empty_result\<lparr>errors := [message]\<rparr>
      | Inr transactions \<Rightarrow>
          if length transactions = 0
          then empty_result\<lparr>errors := [''No transactions found in file'']\<rparr>
          else processTransactionsWithAI save transactions)"

text \<open>
  A statement of a header and ten rows: the rows of Uber and Flipkart have a failed
  status, the row of Amazon has two cells only.
\<close>

definition example_statement :: "string list list" where
  "example_statement =
     [[''Date'', ''Merchant'', ''Amount'', ''Status'', ''Bank''],
      [''1 Aug 2025'', ''Zepto'', ''-250.00'', ''SUCCESS'', ''HDFC''],
      [''2 Aug 2025'', ''Swiggy'', ''-480'', ''SUCCESS'', ''HDFC''],
      [''3 Aug 2025'', ''Uber'', ''-120.50'', ''Failed'', ''HDFC''],
      [''4 Aug 2025'', ''ACME Salary'', ''50000'', ''SUCCESS'', ''HDFC''],
      [''5 Aug 2025'', ''Netflix'', ''-649'', ''SUCCESS'', ''HDFC''],
      [''6 Aug 2025'', ''Amazon''],
      [''7 Aug 2025'', ''Airtel'', ''-399'', ''SUCCESS'', ''HDFC''],
      [''8 Aug 2025'', ''Flipkart'', ''-1,299.00'', ''FAILED'', ''HDFC''],
      [''9 Aug 2025'', ''Apollo Pharmacy'', ''-310'', ''SUCCESS'', ''HDFC''],
      [''10 Aug 2025'', ''MOHIT SINGH'', ''-500'', ''SUCCESS'', ''HDFC'']]"




text \<open>A statement of three expenses in rupees and paise, two of them for food.\<close>

definition paise_statement :: "string list list" where
  "paise_statement =
     [[''Date'', ''Merchant'', ''Amount'', ''Status'', ''Bank''],
      [''1 Aug 2025'', ''Zepto'', ''-10'', ''SUCCESS'', ''HDFC''],
      [''2 Aug 2025'', ''Uber'', ''-12.11'', ''SUCCESS'', ''HDFC''],
      [''3 Aug 2025'', ''Swiggy'', ''-54.98'', ''SUCCESS'', ''HDFC'']]"

section \<open>Properties\<close>

subsection \<open>Rounding to a double\<close>

text \<open>The exponent brackets the number.\<close>

lemma ilog2_lower: assumes "0 < x" shows "2 powi ilog2 x \<le> x"
proof (cases "1 \<le> x")
  case True
  then have n: "0 < \<lfloor>x\<rfloor>" by simp
  from bitlen_bounds[OF n] have "2 ^ nat (bitlen \<lfloor>x\<rfloor> - 1) \<le> \<lfloor>x\<rfloor>" by simp
  then have "(of_int (2 ^ nat (bitlen \<lfloor>x\<rfloor> - 1)) :: rat) \<le> of_int \<lfloor>x\<rfloor>"
    by (simp only: of_int_le_iff)
  also have "\<dots> \<le> x" by simp
  finally have "(2 :: rat) ^ nat (bitlen \<lfloor>x\<rfloor> - 1) \<le> x" by simp
  moreover have "1 \<le> bitlen \<lfloor>x\<rfloor>" using n by (auto simp: bitlen_alt_def)
  ultimately show ?thesis using True by (simp add: ilog2_def power_int_def)
next
  case False
  with assms have y: "1 < 1 / x" by simp
  define m where "m = \<lceil>1 / x\<rceil> - 1"
  have m: "0 < m" using y unfolding m_def by linarith
  have my: "1 / x \<le> of_int m + 1" unfolding m_def by simp
  from bitlen_bounds[OF m] have "m < 2 ^ nat (bitlen m)" by simp
  then have "m + 1 \<le> 2 ^ nat (bitlen m)" by simp
  then have "(of_int (m + 1) :: rat) \<le> of_int (2 ^ nat (bitlen m))"
    by (simp only: of_int_le_iff)
  then have "1 / x \<le> 2 ^ nat (bitlen m)" using my by simp
  then have "1 / 2 ^ nat (bitlen m) \<le> x" using assms
    by (simp add: field_simps)
  moreover have "1 \<le> bitlen m" using m by (auto simp: bitlen_alt_def)
  ultimately show ?thesis using False
    by (simp add: ilog2_def m_def[symmetric] power_int_def field_simps)
qed

lemma ilog2_upper: assumes "0 < x" shows "x < 2 powi (ilog2 x + 1)"
proof (cases "1 \<le> x")
  case True
  then have n: "0 < \<lfloor>x\<rfloor>" by simp
  from bitlen_bounds[OF n] have "\<lfloor>x\<rfloor> + 1 \<le> 2 ^ nat (bitlen \<lfloor>x\<rfloor>)" by simp
  then have "(of_int (\<lfloor>x\<rfloor> + 1) :: rat) \<le> of_int (2 ^ nat (bitlen \<lfloor>x\<rfloor>))"
    by (simp only: of_int_le_iff)
  moreover have "x < of_int (\<lfloor>x\<rfloor> + 1)" by linarith
  ultimately have "x < 2 ^ nat (bitlen \<lfloor>x\<rfloor>)" by simp
  moreover have "0 \<le> bitlen \<lfloor>x\<rfloor>" by (rule bitlen_nonneg)
  ultimately show ?thesis using True by (simp add: ilog2_def power_int_def)
next
  case False
  with assms have y: "1 < 1 / x" by simp
  define m where "m = \<lceil>1 / x\<rceil> - 1"
  have m: "0 < m" using y unfolding m_def by linarith
  have my: "of_int m < 1 / x" unfolding m_def by linarith
  have b1: "1 \<le> bitlen m" using m by (auto simp: bitlen_alt_def)
  from bitlen_bounds[OF m] have "2 ^ nat (bitlen m - 1) \<le> m" by simp
  then have "(of_int (2 ^ nat (bitlen m - 1)) :: rat) \<le> of_int m"
    by (simp only: of_int_le_iff)
  then have "(2 :: rat) ^ nat (bitlen m - 1) \<le> of_int m"
    by (simp only: of_int_power of_int_numeral)
  with my have "2 ^ nat (bitlen m - 1) < 1 / x" by linarith
  then have "x < 1 / 2 ^ nat (bitlen m - 1)" using assms
    by (simp add: field_simps)
  moreover have "- bitlen m + 1 \<le> 0" using b1 by simp
  moreover have "nat (- (- bitlen m + 1)) = nat (bitlen m - 1)" by simp
  ultimately show ?thesis using False b1
    by (simp add: ilog2_def m_def[symmetric] power_int_def field_simps)
qed

lemma powi_less_cancel: "(2 :: rat) powi a < 2 powi b \<Longrightarrow> a < b"
proof (rule ccontr)
  assume lt: "(2 :: rat) powi a < 2 powi b" and "\<not> a < b"
  then have "b \<le> a" by simp
  then have "(2 :: rat) powi b \<le> 2 powi a" by (rule power_int_increasing) simp
  with lt show False by simp
qed

lemma ilog2_unique:
  assumes "0 < x" and "2 powi k \<le> x" and "x < 2 powi (k + 1)"
  shows "ilog2 x = k"
proof -
  have "2 powi ilog2 x < (2 :: rat) powi (k + 1)"
    using ilog2_lower[OF assms(1)] assms(3) by simp
  then have a: "ilog2 x < k + 1" by (rule powi_less_cancel)
  have "2 powi k < (2 :: rat) powi (ilog2 x + 1)"
    using ilog2_upper[OF assms(1)] assms(2) by simp
  then have "k < ilog2 x + 1" by (rule powi_less_cancel)
  with a show ?thesis by simp
qed

text \<open>
  With the exponent of a positive number known, its double is the rounded significand
  at that exponent.
\<close>

lemma fl_pos_eval:
  assumes "2 powi k \<le> x" and "x < 2 powi (k + 1)"
  shows "fl x = of_int (round_even (x / 2 powi (k - 52))) * 2 powi (k - 52)"
proof -
  have "0 < (2 :: rat) powi k" by simp
  with assms(1) have pos: "0 < x" by linarith
  from ilog2_unique[OF pos assms] pos show ?thesis
    by (simp add: fl_def Let_def)
qed

lemma fl_minus: "fl (- x) = - fl x"
  by (simp add: fl_def Let_def sgn_minus)

lemma round_even_of_int: "round_even (of_int n) = n"
  by (simp add: round_even_def Let_def)

lemma round_even_mono: assumes "x \<le> y" shows "round_even x \<le> round_even y"
proof (cases "\<lfloor>x\<rfloor> = \<lfloor>y\<rfloor>")
  case True
  with assms show ?thesis by (auto simp: round_even_def Let_def)
next
  case False
  with assms have "\<lfloor>x\<rfloor> < \<lfloor>y\<rfloor>" using floor_mono[OF assms] by simp
  then have "\<lfloor>x\<rfloor> + 1 \<le> \<lfloor>y\<rfloor>" by simp
  moreover have "round_even x \<le> \<lfloor>x\<rfloor> + 1" by (simp add: round_even_def Let_def)
  moreover have "\<lfloor>y\<rfloor> \<le> round_even y" by (simp add: round_even_def Let_def)
  ultimately show ?thesis by linarith
qed

text \<open>
  Evaluation at a given number: the exponent \<open>k\<close> and the nearest significand \<open>n\<close> are
  supplied and checked.
\<close>

lemma round_even_eval:
  assumes "of_int n - 1 / 2 < x" and "x < of_int n + 1 / 2"
  shows "round_even x = n"
proof (cases "of_int n \<le> x")
  case True
  with assms(2) have "\<lfloor>x\<rfloor> = n" by (simp add: floor_eq_iff)
  with assms(2) show ?thesis by (simp add: round_even_def Let_def)
next
  case False
  with assms(1) have f: "\<lfloor>x\<rfloor> = n - 1" by (simp add: floor_eq_iff)
  have "\<not> x - of_int (n - 1) < 1 / 2" "1 / 2 < x - of_int (n - 1)"
    using assms(1) by simp_all
  with f show ?thesis by (simp add: round_even_def Let_def)
qed

lemma fl_eval:
  assumes "2 powi k \<le> x" and "x < 2 powi (k + 1)"
    and "of_int n - 1 / 2 < x / 2 powi (k - 52)" and "x / 2 powi (k - 52) < of_int n + 1 / 2"
  shows "fl x = of_int n * 2 powi (k - 52)"
  using fl_pos_eval[OF assms(1,2)] round_even_eval[OF assms(3,4)] by simp

text \<open>A significand half way between two integers goes to the even one.\<close>

lemma round_even_tie: "round_even (of_int n + 1 / 2) = (if even n then n else n + 1)"
proof -
  have "\<lfloor>of_int n + 1 / 2 :: rat\<rfloor> = n" by (simp add: floor_eq_iff)
  then show ?thesis by (simp add: round_even_def Let_def)
qed

lemma fl_eval_tie:
  assumes "2 powi k \<le> x" and "x < 2 powi (k + 1)"
    and "x / 2 powi (k - 52) = of_int n + 1 / 2"
  shows "fl x = of_int (if even n then n else n + 1) * 2 powi (k - 52)"
  using fl_pos_eval[OF assms(1,2)] round_even_tie[of n] assms(3) by simp

lemma fl_zero: "fl 0 = 0"
  by (simp add: fl_def)

lemma powi_52_shift: "(2 :: rat) ^ 52 * 2 powi (k - 52) = 2 powi k"
proof -
  have "(2 :: rat) powi 52 * 2 powi (k - 52) = 2 powi (52 + (k - 52))"
    by (rule power_int_add[symmetric]) simp
  then show ?thesis by simp
qed

lemma powi_53_shift: "(2 :: rat) ^ 53 * 2 powi (k - 52) = 2 powi (k + 1)"
proof -
  have "(2 :: rat) powi 53 * 2 powi (k - 52) = 2 powi (53 + (k - 52))"
    by (rule power_int_add[symmetric]) simp
  then show ?thesis by (simp add: add.commute)
qed

text \<open>Rounding stays within the binade of the number, and so it is monotone.\<close>

lemma fl_binade:
  assumes "2 powi k \<le> x" and "x < 2 powi (k + 1)"
  shows "2 powi k \<le> fl x" and "fl x \<le> 2 powi (k + 1)"
proof -
  let ?e = "k - 52"
  have p: "0 < (2 :: rat) powi ?e" by simp
  have "2 ^ 52 * 2 powi ?e \<le> x" using assms(1) by (simp only: powi_52_shift)
  then have "2 ^ 52 \<le> x / 2 powi ?e" using p by (simp add: pos_le_divide_eq)
  then have "of_int (2 ^ 52) \<le> x / 2 powi ?e" by simp
  from round_even_mono[OF this] have lo: "2 ^ 52 \<le> round_even (x / 2 powi ?e)"
    by (simp only: round_even_of_int)
  have "x \<le> 2 ^ 53 * 2 powi ?e" using assms(2) by (simp only: powi_53_shift)
  then have "x / 2 powi ?e \<le> 2 ^ 53" using p by (simp add: pos_divide_le_eq)
  then have "x / 2 powi ?e \<le> of_int (2 ^ 53)" by simp
  from round_even_mono[OF this] have hi: "round_even (x / 2 powi ?e) \<le> 2 ^ 53"
    by (simp only: round_even_of_int)
  have "(of_int (2 ^ 52) :: rat) \<le> of_int (round_even (x / 2 powi ?e))"
    using lo by (simp only: of_int_le_iff)
  then have "2 ^ 52 * 2 powi ?e \<le> (of_int (round_even (x / 2 powi ?e)) :: rat) * 2 powi ?e"
    using p by simp
  then show "2 powi k \<le> fl x"
    by (simp only: powi_52_shift fl_pos_eval[OF assms])
  have "(of_int (round_even (x / 2 powi ?e)) :: rat) \<le> of_int (2 ^ 53)"
    using hi by (simp only: of_int_le_iff)
  then have "(of_int (round_even (x / 2 powi ?e)) :: rat) * 2 powi ?e \<le> 2 ^ 53 * 2 powi ?e"
    using p by simp
  then show "fl x \<le> 2 powi (k + 1)"
    by (simp only: powi_53_shift fl_pos_eval[OF assms])
qed

lemma fl_pos: assumes "0 < x" shows "0 < fl x"
proof -
  have "0 < (2 :: rat) powi ilog2 x" by simp
  also have "\<dots> \<le> fl x"
    by (rule fl_binade(1)[OF ilog2_lower[OF assms] ilog2_upper[OF assms]])
  finally show ?thesis .
qed

lemma fl_mono_pos:
  assumes "0 < x" and "x \<le> y"
  shows "fl x \<le> fl y"
proof -
  from assms have y: "0 < y" by simp
  let ?j = "ilog2 x" and ?k = "ilog2 y"
  note bnd_x = ilog2_lower[OF assms(1)] ilog2_upper[OF assms(1)]
  note bnd_y = ilog2_lower[OF y] ilog2_upper[OF y]
  have "2 powi ?j < (2 :: rat) powi (?k + 1)" using bnd_x(1) assms(2) bnd_y(2) by linarith
  then have "?j < ?k + 1" by (rule powi_less_cancel)
  then consider "?j = ?k" | "?j + 1 \<le> ?k" by linarith
  then show ?thesis
  proof cases
    case 1
    let ?e = "?k - 52"
    have p: "0 < (2 :: rat) powi ?e" by simp
    have "x / 2 powi ?e \<le> y / 2 powi ?e" using assms(2) p by (simp add: divide_right_mono)
    from round_even_mono[OF this]
    have "(of_int (round_even (x / 2 powi ?e)) :: rat) \<le> of_int (round_even (y / 2 powi ?e))"
      by (simp only: of_int_le_iff)
    then have "(of_int (round_even (x / 2 powi ?e)) :: rat) * 2 powi ?e
        \<le> of_int (round_even (y / 2 powi ?e)) * 2 powi ?e"
      using p by simp
    moreover have "fl x = of_int (round_even (x / 2 powi ?e)) * 2 powi ?e"
      using fl_pos_eval[OF bnd_x] 1 by simp
    moreover have "fl y = of_int (round_even (y / 2 powi ?e)) * 2 powi ?e"
      using fl_pos_eval[OF bnd_y] by simp
    ultimately show ?thesis by simp
  next
    case 2
    have "fl x \<le> 2 powi (?j + 1)" by (rule fl_binade(2)[OF bnd_x])
    also have "\<dots> \<le> 2 powi ?k" using 2 by (intro power_int_increasing) simp_all
    also have "\<dots> \<le> fl y" by (rule fl_binade(1)[OF bnd_y])
    finally show ?thesis .
  qed
qed

lemma fl_mono: assumes "x \<le> y" shows "fl x \<le> fl y"
proof -
  consider "0 < x" | "x \<le> 0" "0 \<le> y" | "y < 0" using assms by linarith
  then show ?thesis
  proof cases
    case 1
    then show ?thesis using assms by (rule fl_mono_pos)
  next
    case 2
    have "fl x \<le> 0"
    proof (cases "x = 0")
      case True
      then show ?thesis by (simp add: fl_zero)
    next
      case False
      with 2 have "0 < - x" by simp
      from fl_pos[OF this] show ?thesis by (simp add: fl_minus)
    qed
    moreover have "0 \<le> fl y"
    proof (cases "y = 0")
      case True
      then show ?thesis by (simp add: fl_zero)
    next
      case False
      with 2 have "0 < y" by simp
      from fl_pos[OF this] show ?thesis by simp
    qed
    ultimately show ?thesis by simp
  next
    case 3
    then have "0 < - y" and "- y \<le> - x" using assms by simp_all
    from fl_mono_pos[OF this] show ?thesis by (simp add: fl_minus)
  qed
qed

text \<open>Whole numbers of a magnitude up to \<open>2^53\<close> are doubles.\<close>

lemma fl_int_pos:
  assumes "0 < n" and "n \<le> 2 ^ 53"
  shows "fl (of_int n) = of_int n"
proof (cases "n = 2 ^ 53")
  case True
  have "fl (2 ^ 53) = of_int (2 ^ 52) * 2 powi (53 - 52)"
    by (rule fl_eval) simp_all
  with True show ?thesis by simp
next
  case False
  with assms have lt: "n < 2 ^ 53" by simp
  let ?x = "of_int n :: rat"
  have x: "0 < ?x" using assms by simp
  let ?k = "ilog2 ?x"
  note b = ilog2_lower[OF x] ilog2_upper[OF x]
  have "?x < of_int (2 ^ 53)" using lt by (simp only: of_int_less_iff)
  then have "?x < 2 powi 53" by simp
  with b(1) have "2 powi ?k < (2 :: rat) powi 53" by linarith
  then have k53: "?k < 53" by (rule powi_less_cancel)
  have "(of_int 1 :: rat) \<le> ?x" using assms(1) by (simp only: of_int_le_iff)
  then have "2 powi 0 \<le> ?x" by simp
  with b(2) have "2 powi 0 < (2 :: rat) powi (?k + 1)" by linarith
  then have k0: "0 < ?k + 1" by (rule powi_less_cancel)
  have "?x / 2 powi (?k - 52) = ?x * 2 powi (52 - ?k)"
    using power_int_minus[of "2 :: rat" "?k - 52"] by (simp add: field_simps)
  also have "\<dots> = ?x * 2 ^ nat (52 - ?k)" using k53 by (simp add: power_int_def)
  also have "\<dots> = of_int (n * 2 ^ nat (52 - ?k))" by simp
  finally have q: "?x / 2 powi (?k - 52) = of_int (n * 2 ^ nat (52 - ?k))" .
  have "fl ?x = of_int (round_even (?x / 2 powi (?k - 52))) * 2 powi (?k - 52)"
    by (rule fl_pos_eval[OF b])
  also have "\<dots> = ?x / 2 powi (?k - 52) * 2 powi (?k - 52)"
    by (simp only: q round_even_of_int)
  also have "\<dots> = ?x" by simp
  finally show ?thesis .
qed

lemma fl_int: assumes "\<bar>n\<bar> \<le> 2 ^ 53" shows "fl (of_int n) = of_int n"
proof -
  consider "n = 0" | "0 < n" | "n < 0" by linarith
  then show ?thesis
  proof cases
    case 1
    then show ?thesis by (simp add: fl_zero)
  next
    case 2
    with assms show ?thesis by (intro fl_int_pos) simp_all
  next
    case 3
    with assms have "fl (of_int (- n)) = of_int (- n)" by (intro fl_int_pos) simp_all
    then show ?thesis by (simp add: fl_minus)
  qed
qed

lemma fl_whole: assumes "x \<in> \<int>" and "\<bar>x\<bar> \<le> 2 ^ 53" shows "fl x = x"
proof -
  from assms(1) obtain n where n: "x = of_int n" by (auto elim: Ints_cases)
  with assms(2) have "(of_int \<bar>n\<bar> :: rat) \<le> of_int (2 ^ 53)" by simp
  then have "\<bar>n\<bar> \<le> 2 ^ 53" by (simp only: of_int_le_iff)
  from fl_int[OF this] n show ?thesis by simp
qed

lemma fl_numeral: "(numeral n :: rat) \<le> 2 ^ 53 \<Longrightarrow> fl (numeral n) = numeral n"
  using fl_whole[of "numeral n"] by simp

lemma fl_half: "fl (1 / 2) = 1 / 2"
  using fl_eval[of "-1" "1 / 2" "2 ^ 52"] by simp

text \<open>
  The test \<open>q * 100 > 50\<close> on a rounded ratio \<open>q\<close> is the test \<open>q > 1 / 2\<close>: the first
  double above one half, times 100, rounds to a number above 50.
\<close>

lemma fl_above_half:
  assumes "1 / 2 < fl q"
  shows "1 / 2 + 1 / 2 ^ 53 \<le> fl q"
proof (cases "1 \<le> q")
  case True
  from fl_mono[OF this] fl_int[of 1] show ?thesis by simp
next
  case False
  have "\<not> q \<le> 1 / 2"
  proof
    assume "q \<le> 1 / 2"
    from fl_mono[OF this] assms show False by (simp add: fl_half)
  qed
  with False have b: "2 powi (- 1) \<le> q" "q < 2 powi (- 1 + 1)" by simp_all
  let ?r = "round_even (q / 2 powi (- 1 - 52))"
  have e: "fl q = of_int ?r * 2 powi (- 1 - 52)" by (rule fl_pos_eval[OF b])
  with assms have "1 / 2 < of_int ?r * (2 :: rat) powi (- 53)" by simp
  then have "(2 :: rat) ^ 52 < of_int ?r" by (simp add: power_int_minus field_simps)
  then have "(of_int (2 ^ 52) :: rat) < of_int ?r" by simp
  then have "2 ^ 52 < ?r" by (simp only: of_int_less_iff)
  then have "2 ^ 52 + 1 \<le> ?r" by simp
  then have "(of_int (2 ^ 52 + 1) :: rat) \<le> of_int ?r" by (simp only: of_int_le_iff)
  then have "(2 ^ 52 + 1) * (2 :: rat) powi (- 53) \<le> of_int ?r * 2 powi (- 53)" by simp
  with e show ?thesis by (simp add: power_int_minus field_simps)
qed

lemma fl_percent: "50 < fl (fl q * 100) \<longleftrightarrow> 1 / 2 < fl q"
proof
  assume "1 / 2 < fl q"
  from fl_above_half[OF this] have "(1 / 2 + 1 / 2 ^ 53) * 100 \<le> fl q * 100" by simp
  from fl_mono[OF this] have "fl ((1 / 2 + 1 / 2 ^ 53) * 100) \<le> fl (fl q * 100)" .
  moreover have "fl ((1 / 2 + 1 / 2 ^ 53) * 100) = of_int (50 * 2 ^ 47 + 2) * 2 powi (5 - 52)"
    by (rule fl_eval) simp_all
  ultimately show "50 < fl (fl q * 100)" by simp
next
  assume a: "50 < fl (fl q * 100)"
  show "1 / 2 < fl q"
  proof (rule ccontr)
    assume "\<not> 1 / 2 < fl q"
    then have "fl q * 100 \<le> 50" by simp
    from fl_mono[OF this] fl_int[of 50] a show False by simp
  qed
qed

text \<open>
  A ratio of whole numbers up to \<open>2^50\<close> that exceeds one half does so by \<open>2^-51\<close> at
  least, which the rounding keeps.
\<close>

lemma fl_gt_half_iff:
  assumes "q \<le> 1 / 2 \<or> 1 / 2 + 1 / 2 ^ 51 \<le> q"
  shows "1 / 2 < fl q \<longleftrightarrow> 1 / 2 < q"
proof (cases "q \<le> 1 / 2")
  case True
  from fl_mono[OF this] True show ?thesis by (simp add: fl_half)
next
  case False
  with assms have "1 / 2 + 1 / 2 ^ 51 \<le> q" by simp
  from fl_mono[OF this] have "fl (1 / 2 + 1 / 2 ^ 51) \<le> fl q" .
  moreover have "fl (1 / 2 + 1 / 2 ^ 51) = of_int (2 ^ 52 + 4) * 2 powi (- 1 - 52)"
    by (rule fl_eval) simp_all
  ultimately show ?thesis using False by simp
qed

lemma whole_ratio_half:
  assumes "p \<in> \<int>" and "i \<in> \<int>" and "i \<noteq> 0" and "\<bar>i\<bar> \<le> 2 ^ 50"
  shows "p / i \<le> 1 / 2 \<or> 1 / 2 + 1 / 2 ^ 51 \<le> (p / i :: rat)"
proof (cases "p / i \<le> 1 / 2")
  case True
  then show ?thesis by simp
next
  case False
  from assms(1,2) obtain m n where mn: "p = of_int m" "i = of_int n"
    by (auto simp: Ints_def)
  have i: "0 < \<bar>i\<bar>" using assms(3) by simp
  have "p / i - 1 / 2 = (2 * p - i) / (2 * i)" using assms(3) by (simp add: field_simps)
  with False have pos: "0 < (2 * p - i) / (2 * i)" by simp
  then have nz: "2 * p - i \<noteq> 0" by auto
  have "2 * m - n \<noteq> 0"
  proof
    assume "2 * m - n = 0"
    then have "n = 2 * m" by simp
    with mn have "i = 2 * p" by simp
    with nz show False by simp
  qed
  then have "1 \<le> \<bar>2 * m - n\<bar>" by simp
  then have "(of_int 1 :: rat) \<le> of_int \<bar>2 * m - n\<bar>" by (simp only: of_int_le_iff)
  then have one: "1 \<le> \<bar>2 * p - i\<bar>" using mn by simp
  have "(2 * p - i) / (2 * i) = \<bar>(2 * p - i) / (2 * i)\<bar>" using pos by (simp only: abs_of_pos)
  also have "\<dots> = \<bar>2 * p - i\<bar> / (2 * \<bar>i\<bar>)" by (simp add: abs_mult)
  finally have eq: "p / i - 1 / 2 = \<bar>2 * p - i\<bar> / (2 * \<bar>i\<bar>)"
    using \<open>p / i - 1 / 2 = (2 * p - i) / (2 * i)\<close> by simp
  have "1 / 2 ^ 51 \<le> 1 / (2 * \<bar>i\<bar>)" using assms(4) i by (simp add: field_simps)
  also have "\<dots> \<le> \<bar>2 * p - i\<bar> / (2 * \<bar>i\<bar>)" using one i by (simp add: divide_right_mono)
  finally have "1 / 2 ^ 51 \<le> p / i - 1 / 2" using eq by simp
  then show ?thesis by simp
qed

text \<open>The literal \<^verbatim>\<open>0.7\<close>.\<close>

lemma fl_seven_tenths: "fl (7 / 10) = 3152519739159347 / 4503599627370496"
  using fl_eval[of "- 1" "7 / 10" 6305039478318694] by simp

subsection \<open>Affordability\<close>

text \<open>
  The percentage test of the handler is the ratio test of the specification, and for a
  positive purchase the test against the safe spending limit is the test against
  \<open>balance - 3 * monthlyExpenses\<close>.
\<close>

lemma js_gt_percent: "js_gt (js_times_pos (js_div p i) 100) 50 = js_gt (js_div p i) (1 / 2)"
  by (simp add: js_div_def ddiv_def dmul_def fl_percent)

lemma verdict_claimed:
  assumes "0 < p"
  shows
  "(fst (verdict b p (max 0 (dsub b (dmul e 3))) (js_times_pos (js_div p i) 100)),
    fst (snd (verdict b p (max 0 (dsub b (dmul e 3))) (js_times_pos (js_div p i) 100))),
    (case snd (snd (verdict b p (max 0 (dsub b (dmul e 3))) (js_times_pos (js_div p i) 100))) of
       NeedAdditional x \<Rightarrow> Some x | _ \<Rightarrow> None))
   = claimed_verdict b i e p"
proof -
  have m: "dmul e 3 = dmul 3 e" by (simp add: dmul_def mult.commute)
  have "max 0 (dsub b (dmul 3 e)) < p \<longleftrightarrow> dsub b (dmul 3 e) < p" using assms by auto
  then show ?thesis
    by (simp add: verdict_def claimed_verdict_def js_gt_percent m)
qed

text \<open>
  On whole amounts of a magnitude up to \<open>2^50\<close> no operation of the rules rounds, and the
  order is the one over the exact numbers.
\<close>

lemma claimed_verdict_whole:
  assumes "whole_amount b" and "whole_amount i" and "whole_amount e" and "whole_amount p"
  shows "claimed_verdict b i e p = exact_verdict b i e p"
proof -
  from assms have ints: "b \<in> \<int>" "i \<in> \<int>" "e \<in> \<int>" "p \<in> \<int>"
    and bounds: "\<bar>b\<bar> \<le> 2 ^ 50" "\<bar>i\<bar> \<le> 2 ^ 50" "\<bar>e\<bar> \<le> 2 ^ 50" "\<bar>p\<bar> \<le> 2 ^ 50"
    by (simp_all add: whole_amount_def)
  have "3 * e \<in> \<int>" using ints by simp
  moreover have "\<bar>3 * e\<bar> \<le> 2 ^ 53" using bounds by (simp add: abs_mult; linarith)
  ultimately have m: "dmul 3 e = 3 * e" by (simp add: dmul_def fl_whole)
  have "b - 3 * e \<in> \<int>" using ints by simp
  moreover have "\<bar>b - 3 * e\<bar> \<le> 2 ^ 53" using bounds by (simp; linarith)
  ultimately have r: "dsub b (dmul 3 e) = b - 3 * e" by (simp add: dsub_def m fl_whole)
  have "p - b \<in> \<int>" using ints by simp
  moreover have "\<bar>p - b\<bar> \<le> 2 ^ 53" using bounds by (simp; linarith)
  ultimately have d: "dsub p b = p - b" by (simp add: dsub_def fl_whole)
  have q: "js_gt (js_div p i) (1 / 2) \<longleftrightarrow> (if i = 0 then 0 < p else 1 / 2 < p / i)"
  proof (cases "i = 0")
    case True
    then show ?thesis by (simp add: js_div_def)
  next
    case False
    from fl_gt_half_iff[OF whole_ratio_half[OF ints(4) ints(2) False bounds(2)]] False
    show ?thesis by (simp add: js_div_def ddiv_def)
  qed
  show ?thesis by (simp add: claimed_verdict_def exact_verdict_def r d q)
qed



text \<open>One snapshot for each of the rules 2 to 5, the balance being income less expenses.\<close>

lemma affordability_examples:
  "verdict_of (handleAffordabilityCheck
       (Some \<lparr>balance = 300, totalIncome = 1000, totalExpenses = 700\<rparr>)
       \<lparr>amount = Some 500, item = None\<rparr> None None)
     = Some (NOT_AFFORDABLE, HighRisk, Some 200)"
  "verdict_of (handleAffordabilityCheck
       (Some \<lparr>balance = 40000, totalIncome = 50000, totalExpenses = 10000\<rparr>)
       \<lparr>amount = Some 20000, item = None\<rparr> None None)
     = Some (RISKY_PURCHASE, MediumRisk, None)"
  "verdict_of (handleAffordabilityCheck
       (Some \<lparr>balance = 29000, totalIncome = 30000, totalExpenses = 1000\<rparr>)
       \<lparr>amount = Some 20000, item = None\<rparr> None None)
     = Some (EXPENSIVE_FOR_YOUR_INCOME, MediumRisk, None)"
  "verdict_of (handleAffordabilityCheck
       (Some \<lparr>balance = 90000, totalIncome = 100000, totalExpenses = 10000\<rparr>)
       \<lparr>amount = Some 20000, item = None\<rparr> None None)
     = Some (AFFORDABLE, LowRisk, None)"
proof -
  have w: "whole_amount 300" "whole_amount 1000" "whole_amount 700" "whole_amount 500"
    "whole_amount 40000" "whole_amount 50000" "whole_amount 10000" "whole_amount 20000"
    "whole_amount 29000" "whole_amount 30000" "whole_amount 90000" "whole_amount 100000"
    by (simp_all add: whole_amount_def)
  show "verdict_of (handleAffordabilityCheck
       (Some \<lparr>balance = 300, totalIncome = 1000, totalExpenses = 700\<rparr>)
       \<lparr>amount = Some 500, item = None\<rparr> None None)
     = Some (NOT_AFFORDABLE, HighRisk, Some 200)"
    using verdict_claimed[of 500 300 700 1000] claimed_verdict_whole[of 300 1000 700 500] w
    by (simp add: handleAffordabilityCheck_def verdict_of_def Let_def or_num_def
        exact_verdict_def)
  show "verdict_of (handleAffordabilityCheck
       (Some \<lparr>balance = 40000, totalIncome = 50000, totalExpenses = 10000\<rparr>)
       \<lparr>amount = Some 20000, item = None\<rparr> None None)
     = Some (RISKY_PURCHASE, MediumRisk, None)"
    using verdict_claimed[of 20000 40000 10000 50000]
      claimed_verdict_whole[of 40000 50000 10000 20000] w
    by (simp add: handleAffordabilityCheck_def verdict_of_def Let_def or_num_def
        exact_verdict_def)
  show "verdict_of (handleAffordabilityCheck
       (Some \<lparr>balance = 29000, totalIncome = 30000, totalExpenses = 1000\<rparr>)
       \<lparr>amount = Some 20000, item = None\<rparr> None None)
     = Some (EXPENSIVE_FOR_YOUR_INCOME, MediumRisk, None)"
    using verdict_claimed[of 20000 29000 1000 30000]
      claimed_verdict_whole[of 29000 30000 1000 20000] w
    by (simp add: handleAffordabilityCheck_def verdict_of_def Let_def or_num_def
        exact_verdict_def)
  show "verdict_of (handleAffordabilityCheck
       (Some \<lparr>balance = 90000, totalIncome = 100000, totalExpenses = 10000\<rparr>)
       \<lparr>amount = Some 20000, item = None\<rparr> None None)
     = Some (AFFORDABLE, LowRisk, None)"
    using verdict_claimed[of 20000 90000 10000 100000]
      claimed_verdict_whole[of 90000 100000 10000 20000] w
    by (simp add: handleAffordabilityCheck_def verdict_of_def Let_def or_num_def
        exact_verdict_def)
qed

subsection \<open>Savings timeline\<close>

lemma resolveTarget_truthy: "truthy_num (fst (resolveTarget d qa qi ctx))"
  by (simp add: resolveTarget_def Let_def)

text \<open>
  The branches of the handler, in the order it tests them: a surplus that is not positive
  is reported with the deficit; otherwise a shortfall that is not positive is reported as
  affordable now; otherwise the four timelines are the ceilings of the quotients that the
  machine computes.
\<close>

lemma savings_timeline_branches:
  assumes "fst (resolveTarget d qa qi ctx) = Some targetAmount"
  shows "\<exists>r. handleSavingsTimeline (Some s) d qa qi ctx = Report r \<and>
           (dsub (totalIncome s) (totalExpenses s) \<le> 0 \<longrightarrow>
              timeline r = CannotSaveCurrently \<bar>dsub (totalIncome s) (totalExpenses s)\<bar> \<and>
              \<not> data_feasible r) \<and>
           (0 < dsub (totalIncome s) (totalExpenses s) \<and> dsub targetAmount (balance s) \<le> 0 \<longrightarrow>
              timeline r = CanAffordNow (balance s) (dsub (balance s) targetAmount)) \<and>
           (0 < dsub (totalIncome s) (totalExpenses s) \<and> 0 < dsub targetAmount (balance s) \<longrightarrow>
              (\<exists>opts. timeline r = TimelineOptions opts \<and>
                 opt_monthlySurplus opts = dsub (totalIncome s) (totalExpenses s) \<and>
                 opt_shortfall opts = dsub targetAmount (balance s) \<and>
                 monthsForItemOnly opts =
                   \<lceil>ddiv (dsub targetAmount (balance s)) (dsub (totalIncome s) (totalExpenses s))\<rceil> \<and>
                 monthsAt70Percent opts =
                   \<lceil>ddiv (dsub targetAmount (balance s))
                      (dmul (dsub (totalIncome s) (totalExpenses s)) (fl (7 / 10)))\<rceil> \<and>
                 monthsAt50Percent opts =
                   \<lceil>ddiv (dsub targetAmount (balance s))
                      (dmul (dsub (totalIncome s) (totalExpenses s)) (1 / 2))\<rceil> \<and>
                 monthsWithEmergencyFund opts =
                   \<lceil>ddiv (dsub (dadd targetAmount (dmul (totalExpenses s) 6)) (balance s))
                      (dsub (totalIncome s) (totalExpenses s))\<rceil>))"
proof -
  have t: "truthy_num (Some targetAmount)"
    using resolveTarget_truthy[of d qa qi ctx] assms by simp
  then have nz: "targetAmount \<noteq> 0" by simp
  show ?thesis
    using assms nz
    by (simp add: handleSavingsTimeline_def Let_def)
qed

text \<open>
  The specification's example: income 50000, expenses 30000, balance 10000, target 50000 give
  monthlySurplus 20000, shortfall 40000, a monthly contribution of 14000 at the 70% rate and
  3 months; 2 months at 100%, 4 at 50% and 11 with the emergency fund.
\<close>

lemma savings_timeline_example:
  "\<exists>r opts. handleSavingsTimeline
       (Some \<lparr>balance = 10000, totalIncome = 50000, totalExpenses = 30000\<rparr>)
       \<lparr>amount = Some 50000, item = None\<rparr> None None None = Report r \<and>
     timeline r = TimelineOptions opts \<and>
     opt_monthlySurplus opts = 20000 \<and> opt_shortfall opts = 40000 \<and>
     strategy_transfer r = Some 14000 \<and>
     monthsAt70Percent opts = 3 \<and> monthsAt70Percent opts = months_to_target 40000 20000 (7 / 10) \<and>
     monthsForItemOnly opts = 2 \<and> monthsAt50Percent opts = 4 \<and>
     monthsWithEmergencyFund opts = 11 \<and>
     sv_recommendation r = GoodNews 3"
proof -
  have s: "dsub 50000 30000 = 20000" "dsub 50000 10000 = 40000"
    by (simp_all add: dsub_def fl_numeral)
  have "fl (20000 * (3152519739159347 / 4503599627370496)) = of_int 7696581394432000 * 2 powi (13 - 52)"
    by (rule fl_eval) simp_all
  then have c: "dmul 20000 (fl (7 / 10)) = 14000"
    by (simp add: dmul_def fl_seven_tenths)
  have "fl (40000 / 14000) = of_int 6433713753386423 * 2 powi (1 - 52)"
    by (rule fl_eval) simp_all
  then have m70: "\<lceil>ddiv 40000 14000\<rceil> = 3"
    by (simp add: ddiv_def ceiling_eq_iff)
  have m100: "\<lceil>ddiv 40000 20000\<rceil> = 2"
    by (simp add: ddiv_def fl_numeral)
  have h: "dmul 20000 (1 / 2) = 10000"
    by (simp add: dmul_def fl_numeral)
  have m50: "\<lceil>ddiv 40000 10000\<rceil> = 4"
    by (simp add: ddiv_def fl_numeral)
  have ef: "dmul 30000 6 = 180000" "dadd 50000 180000 = 230000" "dsub 230000 10000 = 220000"
    by (simp_all add: dmul_def dadd_def dsub_def fl_numeral)
  have mEF: "\<lceil>ddiv 220000 20000\<rceil> = 11"
    by (simp add: ddiv_def fl_numeral)
  have e: "months_to_target 40000 20000 (7 / 10) = 3"
    by (simp add: months_to_target_def ceiling_eq_iff)
  show ?thesis
    by (simp add: handleSavingsTimeline_def resolveTarget_def extractedAmount_def or_num_def
        Let_def s c m70 m100 h m50 ef mEF e)
qed

text \<open>
  C6, at a shortfall that is a whole number of monthly contributions. Income 31000,
  expenses 20000 and balance 11000 with a target of 57200 give monthlySurplus 11000 and
  shortfall 46200; 70% of the surplus is 7700, so the months at the 70% rate are
  ceil (46200 / 7700) = 6. The handler multiplies by the double \<^verbatim>\<open>0.7\<close>, gets
  7699.999999999999 and a quotient just above 6, and reports 7 months and an
  "achievable goal" instead of the "good news" of a goal within 6 months.
\<close>

theorem savings_months_rounding:
  "\<exists>r opts. handleSavingsTimeline
       (Some \<lparr>balance = 11000, totalIncome = 31000, totalExpenses = 20000\<rparr>)
       \<lparr>amount = Some 57200, item = None\<rparr> None None None = Report r \<and>
     timeline r = TimelineOptions opts \<and>
     opt_monthlySurplus opts = 11000 \<and> opt_shortfall opts = 46200 \<and>
     monthsAt70Percent opts = 7 \<and>
     data_timelineMonths r = Some 7 \<and>
     sv_recommendation r = AchievableGoal (8466239533875199 / 1099511627776) 7 \<and>
     months_to_target 46200 11000 (7 / 10) = 6"
proof -
  have s: "dsub 31000 20000 = 11000" "dsub 57200 11000 = 46200"
    by (simp_all add: dsub_def fl_numeral)
  have "fl (11000 * (3152519739159347 / 4503599627370496))
      = of_int 8466239533875199 * 2 powi (12 - 52)"
    by (rule fl_eval) simp_all
  then have c: "dmul 11000 (fl (7 / 10)) = 8466239533875199 / 1099511627776"
    by (simp add: dmul_def fl_seven_tenths)
  have "fl (46200 / (8466239533875199 / 1099511627776))
      = of_int 6755399441055745 * 2 powi (2 - 52)"
    by (rule fl_eval) simp_all
  then have m70: "\<lceil>ddiv 46200 (8466239533875199 / 1099511627776)\<rceil> = 7"
    by (simp add: ddiv_def ceiling_eq_iff)
  have e: "months_to_target 46200 11000 (7 / 10) = 6"
    by (simp add: months_to_target_def)
  show ?thesis
    by (simp add: handleSavingsTimeline_def resolveTarget_def extractedAmount_def or_num_def
        Let_def s c m70 e)
qed

text \<open>
  C10 (as amended). When the financial data is available, the savings timeline handler
  never answers that it needs the target amount: if no amount comes out of the intent
  payload, the query and the conversation context, the target is 50000, and the item name
  is "iPhone" when no item name was extracted either; an extracted item name is kept.
\<close>

theorem savings_target_default:
  "handleSavingsTimeline (Some s) d qa qi ctx \<noteq> NeedTargetAmount \<and>
   (\<not> truthy_num (extractedAmount d qa ctx) \<longrightarrow>
      (\<exists>r. handleSavingsTimeline (Some s) d qa qi ctx = Report r \<and>
           data_targetAmount r = 50000 \<and>
           sv_itemName r = or_str (or_str (item d) qi) (Some ''iPhone'')))"
  by (simp add: handleSavingsTimeline_def resolveTarget_def Let_def split: option.splits)

text \<open>An utterance with no amount and no item anywhere: the defaults are reported.\<close>

theorem savings_target_default_witness:
  "\<exists>r. handleSavingsTimeline (Some \<lparr>balance = 0, totalIncome = 100, totalExpenses = 40\<rparr>)
         \<lparr>amount = None, item = None\<rparr> None None (Some ''User: when can I afford it'')
        = Report r \<and> data_targetAmount r = 50000 \<and> sv_itemName r = Some ''iPhone''"
proof -
  have "\<not> truthy_num (extractedAmount \<lparr>amount = None, item = None\<rparr> None (Some ''User: when can I afford it''))"
    by (simp add: extractedAmount_def or_num_def contextAmount_def rupee_def Let_def)
  with savings_target_default[of "\<lparr>balance = 0, totalIncome = 100, totalExpenses = 40\<rparr>"
      "\<lparr>amount = None, item = None\<rparr>" None None "Some ''User: when can I afford it''"]
  show ?thesis by (simp add: or_str_def)
qed

text \<open>
  "When can I afford a car?", classified with the item "car" and no amount: the target
  defaults to 50000 and the item name stays "car".
\<close>

theorem savings_item_name_counterexample:
  "\<exists>r. handleSavingsTimeline (Some \<lparr>balance = 0, totalIncome = 100, totalExpenses = 40\<rparr>)
         \<lparr>amount = None, item = Some ''car''\<rparr> None None None
        = Report r \<and> data_targetAmount r = 50000 \<and> sv_itemName r = Some ''car'' \<and>
        sv_itemName r \<noteq> Some ''iPhone''"
  by (simp add: handleSavingsTimeline_def resolveTarget_def extractedAmount_def or_num_def
      or_str_def Let_def)

subsection \<open>Anomaly detection\<close>

lemma foldl_amounts: "foldl (\<lambda>sum x. sum + exp_amount x) a xs = a + sum_list (map exp_amount xs)"
  by (induction xs arbitrary: a) (simp_all add: add.assoc)

lemma getHours_range: "getHours tza d = Some h \<Longrightarrow> 0 \<le> h \<and> h \<le> 23"
  by (cases d) (auto simp: getHours_def)

text \<open>
  C9. The late-night alert fires exactly when the entry has a local hour below 6. The
  rule is written \<open>hour < 6 \<or> hour > 23\<close>; a local hour lies in 0..23, so the second
  disjunct never holds, and the rule is evaluated without error for every hour.
\<close>

theorem late_night_alert_iff:
  "(has_late_night (detectAnomalies tza db e)
      \<longleftrightarrow> (\<exists>h. getHours tza (exp_date e) = Some h \<and> h < 6)) \<and>
   (\<forall>h. getHours tza (exp_date e) = Some h \<longrightarrow> 0 \<le> h \<and> h \<le> 23 \<and> \<not> 23 < h)"
proof (cases "getHours tza (exp_date e)")
  case None
  then show ?thesis
    by (simp add: detectAnomalies_def has_late_night_def Let_def)
next
  case (Some h)
  with getHours_range[of tza "exp_date e" h] show ?thesis
    by (simp add: detectAnomalies_def has_late_night_def Let_def)
qed

text \<open>A purchase at 02:30 local time (UTC+5:30) raises the alert; one at 14:30 does not.\<close>

theorem late_night_alert_iff_witness:
  "has_late_night (detectAnomalies (\<lambda>t. 19800000) []
      \<lparr>exp_name = ''Zepto'', exp_amount = 2000, exp_category = Some ''food'',
        exp_date = Some 1754341200000\<rparr>) \<and>
   getHours (\<lambda>t. 19800000) (Some 1754341200000) = Some 2 \<and>
   \<not> has_late_night (detectAnomalies (\<lambda>t. 19800000) []
      \<lparr>exp_name = ''Zepto'', exp_amount = 2000, exp_category = Some ''food'',
        exp_date = Some 1754384400000\<rparr>) \<and>
   getHours (\<lambda>t. 19800000) (Some 1754384400000) = Some 14"
proof -
  have h: "getHours (\<lambda>t. 19800000) (Some 1754341200000) = Some 2"
    and h': "getHours (\<lambda>t. 19800000) (Some 1754384400000) = Some 14"
    by (simp_all add: getHours_def)
  from h h' late_night_alert_iff[of "\<lambda>t. 19800000" "[]"
      "\<lparr>exp_name = ''Zepto'', exp_amount = 2000, exp_category = Some ''food'',
        exp_date = Some 1754341200000\<rparr>"]
    late_night_alert_iff[of "\<lambda>t. 19800000" "[]"
      "\<lparr>exp_name = ''Zepto'', exp_amount = 2000, exp_category = Some ''food'',
        exp_date = Some 1754384400000\<rparr>"]
  show ?thesis by simp
qed

text \<open>
  What the amount check computes: the expense is stored before the check, so the mean is
  taken over all expenses of the category with the new one among them, and the test
  \<open>length > 0\<close> on them always passes. Without prior history a non-negative amount
  raises no alert.
\<close>

lemma amount_alert_includes_new:
  "(has_unusual (snd (snd (addSmartExpense tza db r when))) \<longleftrightarrow>
      2 * ((sum_list (prior_amounts db (rc_category r)) + rc_total r)
           / of_nat (length (prior_amounts db (rc_category r)) + 1)) < rc_total r) \<and>
   (prior_amounts db (rc_category r) = [] \<and> 0 \<le> rc_total r \<longrightarrow>
      \<not> has_unusual (snd (snd (addSmartExpense tza db r when))))"
proof -
  have iff: "has_unusual (snd (snd (addSmartExpense tza db r when))) \<longleftrightarrow>
      2 * ((sum_list (prior_amounts db (rc_category r)) + rc_total r)
           / of_nat (length (prior_amounts db (rc_category r)) + 1)) < rc_total r"
    by (simp add: addSmartExpense_def detectAnomalies_def has_unusual_def prior_amounts_def
        foldl_amounts Let_def mult.commute split: option.splits)
  then show ?thesis by simp
qed

text \<open>
  Three food expenses of 100 and a new one of 1000: the mean with the new one is 325 and
  the alert is raised. A first expense of 500 in its category raises none.
\<close>

lemma amount_alert_examples:
  "has_unusual (snd (snd (addSmartExpense (\<lambda>t. 0)
      [\<lparr>exp_name = ''a'', exp_amount = 100, exp_category = Some ''food'', exp_date = Some 0\<rparr>,
       \<lparr>exp_name = ''b'', exp_amount = 100, exp_category = Some ''food'', exp_date = Some 0\<rparr>,
       \<lparr>exp_name = ''c'', exp_amount = 100, exp_category = Some ''food'', exp_date = Some 0\<rparr>]
      \<lparr>rc_merchant = ''Cafe'', rc_first_item = None, rc_total = 1000, rc_category = Some ''food''\<rparr>
      (Some 43200000)))) \<and>
   \<not> has_unusual (snd (snd (addSmartExpense (\<lambda>t. 0) []
      \<lparr>rc_merchant = ''Cafe'', rc_first_item = None, rc_total = 500, rc_category = Some ''food''\<rparr>
      (Some 43200000))))"
  using amount_alert_includes_new[of "\<lambda>t. 0"
      "[\<lparr>exp_name = ''a'', exp_amount = 100, exp_category = Some ''food'', exp_date = Some 0\<rparr>,
       \<lparr>exp_name = ''b'', exp_amount = 100, exp_category = Some ''food'', exp_date = Some 0\<rparr>,
       \<lparr>exp_name = ''c'', exp_amount = 100, exp_category = Some ''food'', exp_date = Some 0\<rparr>]"
      "\<lparr>rc_merchant = ''Cafe'', rc_first_item = None, rc_total = 1000, rc_category = Some ''food''\<rparr>"
      "Some 43200000"]
    amount_alert_includes_new[of "\<lambda>t. 0" "[]"
      "\<lparr>rc_merchant = ''Cafe'', rc_first_item = None, rc_total = 500, rc_category = Some ''food''\<rparr>"
      "Some 43200000"]
  by (simp add: prior_amounts_def)

text \<open>
  C2, at one prior expense. The category holds one food expense of 100 and a new food
  expense of 250 is committed: the mean of the prior expenses is 100 and 250 exceeds
  twice it, so the check as specified raises the alert; the check as programmed takes
  the mean (100 + 250) / 2 = 175 and raises none.
\<close>

theorem amount_alert_one_prior_expense:
  "\<not> has_unusual (snd (snd (addSmartExpense (\<lambda>t. 0)
      [\<lparr>exp_name = ''lunch'', exp_amount = 100, exp_category = Some ''food'', exp_date = Some 0\<rparr>]
      \<lparr>rc_merchant = ''Cafe'', rc_first_item = None, rc_total = 250, rc_category = Some ''food''\<rparr>
      (Some 43200000)))) \<and>
   claimed_amount_alert
     (prior_amounts
        [\<lparr>exp_name = ''lunch'', exp_amount = 100, exp_category = Some ''food'', exp_date = Some 0\<rparr>]
        (Some ''food''))
     250"
  by (simp add: addSmartExpense_def detectAnomalies_def has_unusual_def has_late_night_def
      claimed_amount_alert_def prior_amounts_def getHours_def Let_def)

text \<open>With one prior expense in the category no positive amount raises the alert.\<close>

lemma amount_alert_never_after_one:
  assumes "prior_amounts db (rc_category r) = [a]" and "0 \<le> a"
  shows "\<not> has_unusual (snd (snd (addSmartExpense tza db r when)))"
  using assms amount_alert_includes_new[of tza db r "when"] by simp

subsection \<open>Gateway\<close>

lemma getOptimalModel_backup:
  "getOptimalModel ''backup''
     = \<lparr>cfg_model = ''llama-3.3-70b-versatile'', cfg_client = GroqClient, cfg_type = ''groq''\<rparr>"
  by (simp add: getOptimalModel_def)

lemma getOptimalModel_extraction:
  "getOptimalModel ''expense-extraction''
     = \<lparr>cfg_model = ''openai/gpt-4o'', cfg_client = GithubAI, cfg_type = ''github''\<rparr>"
  by (simp add: getOptimalModel_def)

lemma primary_call_eq:
  "primary_call task messages tools =
     (cfg_client (getOptimalModel task),
      \<lparr>req_model = cfg_model (getOptimalModel task), req_messages = messages,
        req_tools = tools, req_tool_choice = tool_choice tools\<rparr>)"
  by (simp add: primary_call_def Let_def)

lemma fallback_call_eq:
  "fallback_call messages tools =
     (GroqClient,
      \<lparr>req_model = ''llama-3.3-70b-versatile'', req_messages = messages,
        req_tools = tools, req_tool_choice = tool_choice tools\<rparr>)"
  by (simp add: fallback_call_def Let_def getOptimalModel_backup)

text \<open>
  C3 (as amended). When the primary call is rejected, the gateway makes exactly one more
  call, to the fallback provider, with the same messages (and tools); when that call is
  rejected too, the caller gets one failure, which is the error of the fallback call, the
  error of the primary call being dropped. A response that the primary call resolves
  with is returned as it is, after that one call. No request makes more than two
  provider calls.
\<close>

theorem gateway_fallback_once:
  "(\<forall>e. respond 0 (fst (primary_call task messages tools)) (snd (primary_call task messages tools)) = Inl e
      \<longrightarrow> snd (callAIWithBestModel respond task messages tools)
            = [primary_call task messages tools, fallback_call messages tools] \<and>
          fst (fallback_call messages tools) = GroqClient \<and>
          req_messages (snd (fallback_call messages tools))
            = req_messages (snd (primary_call task messages tools)) \<and>
          req_messages (snd (fallback_call messages tools)) = messages \<and>
          req_tools (snd (fallback_call messages tools))
            = req_tools (snd (primary_call task messages tools)) \<and>
          req_tool_choice (snd (fallback_call messages tools))
            = req_tool_choice (snd (primary_call task messages tools)) \<and>
          (\<forall>e2. respond 1 (fst (fallback_call messages tools)) (snd (fallback_call messages tools)) = Inl e2
             \<longrightarrow> fst (callAIWithBestModel respond task messages tools) = Inl e2)) \<and>
   (\<forall>r. respond 0 (fst (primary_call task messages tools)) (snd (primary_call task messages tools)) = Inr r
      \<longrightarrow> callAIWithBestModel respond task messages tools = (Inr r, [primary_call task messages tools])) \<and>
   length (snd (callAIWithBestModel respond task messages tools)) \<le> 2"
  by (auto simp: callAIWithBestModel_def Let_def primary_call_eq fallback_call_eq
      split: sum.splits)

text \<open>
  Both providers down: two calls with the same messages, the second to the fallback
  model, and the fallback's error as the one failure.
\<close>

theorem gateway_fallback_once_witness:
  "callAIWithBestModel (\<lambda>n c r. if n = 0 then Inl ''primary down'' else Inl ''fallback down'')
      ''expense-extraction'' [''hello''] (None :: unit list option)
    = (Inl ''fallback down'',
       [(GithubAI, \<lparr>req_model = ''openai/gpt-4o'', req_messages = [''hello''],
                     req_tools = None, req_tool_choice = None\<rparr>),
        (GroqClient, \<lparr>req_model = ''llama-3.3-70b-versatile'', req_messages = [''hello''],
                       req_tools = None, req_tool_choice = None\<rparr>)])"
  using gateway_fallback_once[of "\<lambda>n c r. if n = 0 then Inl ''primary down'' else Inl ''fallback down''"
      "''expense-extraction''" "[''hello'']" "None :: unit list option"]
  by (simp add: primary_call_eq fallback_call_eq getOptimalModel_extraction tool_choice_def
      prod_eq_iff)

text \<open>
  The primary provider answers with a response that has no choice, a failure in the
  specification's sense, and the fallback provider is ready to answer: the gateway makes
  the one call to the primary provider and returns its response; no call to the fallback
  provider is made.
\<close>

theorem gateway_malformed_response_counterexample:
  "call_fails (Inr \<lparr>choices = [], total_tokens = None\<rparr>) \<and>
   callAIWithBestModel
      (\<lambda>n c r. if n = 0 then Inr \<lparr>choices = [], total_tokens = None\<rparr>
                else Inr \<lparr>choices = [Some ''{}''], total_tokens = Some 7\<rparr>)
      ''expense-extraction'' [''hello''] (None :: unit list option)
    = (Inr \<lparr>choices = [], total_tokens = None\<rparr>,
       [(GithubAI, \<lparr>req_model = ''openai/gpt-4o'', req_messages = [''hello''],
                     req_tools = None, req_tool_choice = None\<rparr>)])"
  by (simp add: call_fails_def schema_compatible_def callAIWithBestModel_def Let_def
      primary_call_eq getOptimalModel_extraction tool_choice_def)

subsection \<open>Missing fields of a single expense\<close>

lemma detect_missing_ordered:
  "detect_missing ToNumber amt name description category
     = filter (\<lambda>f. f \<in> set (detect_missing ToNumber amt name description category))
         [''amount'', ''description'', ''category'']"
  by (simp add: detect_missing_def)

lemma clarification_first:
  "map_option asked_field (clarification (detect_missing ToNumber amt name description category) amt)
     = (case detect_missing ToNumber amt name description category of
          [] \<Rightarrow> None | f # _ \<Rightarrow> Some f)"
  by (simp add: detect_missing_def clarification_def)

lemma absent_not_truthy: "absent v \<Longrightarrow> \<not> truthy v"
  by (auto simp: absent_def)

lemma extract_expense_fields:
  assumes "hasExpense (extractExpenseFromMessage ToNumber JSON_parse ai)"
  shows "\<exists>amt name description category.
           get_prop (expenseData (extractExpenseFromMessage ToNumber JSON_parse ai)) ''amount'' = Inr amt \<and>
           get_prop (expenseData (extractExpenseFromMessage ToNumber JSON_parse ai)) ''name'' = Inr name \<and>
           get_prop (expenseData (extractExpenseFromMessage ToNumber JSON_parse ai)) ''description'' = Inr description \<and>
           get_prop (expenseData (extractExpenseFromMessage ToNumber JSON_parse ai)) ''category'' = Inr category \<and>
           missingFields (extractExpenseFromMessage ToNumber JSON_parse ai)
             = (case detect_missing ToNumber amt name description category of
                  [] \<Rightarrow> None | f # fs \<Rightarrow> Some (f # fs)) \<and>
           clarificationQuestion (extractExpenseFromMessage ToNumber JSON_parse ai)
             = clarification (detect_missing ToNumber amt name description category) amt"
  using assms
  by (auto simp: extractExpenseFromMessage_def extractExpenseFromMessage_try_def try_bind_def
      no_expense_def Let_def split: sum.splits option.splits list.splits if_splits)

text \<open>
  C8. For a single recognized expense the missing fields are detected in the fixed order
  amount, description, category: the amount is missing when it is absent or not above 0,
  the description when neither a name nor a description is given, the category when it
  is not given. The clarifying question asks for one field, the first missing one.
\<close>

theorem missing_field_order:
  assumes "hasExpense (extractExpenseFromMessage ToNumber JSON_parse ai)"
  shows "\<exists>amt name description category missing.
           get_prop (expenseData (extractExpenseFromMessage ToNumber JSON_parse ai)) ''amount'' = Inr amt \<and>
           get_prop (expenseData (extractExpenseFromMessage ToNumber JSON_parse ai)) ''name'' = Inr name \<and>
           get_prop (expenseData (extractExpenseFromMessage ToNumber JSON_parse ai)) ''description'' = Inr description \<and>
           get_prop (expenseData (extractExpenseFromMessage ToNumber JSON_parse ai)) ''category'' = Inr category \<and>
           missingFields (extractExpenseFromMessage ToNumber JSON_parse ai)
             = (if missing = [] then None else Some missing) \<and>
           missing = filter (\<lambda>f. f \<in> set missing) [''amount'', ''description'', ''category''] \<and>
           (absent amt \<longrightarrow> ''amount'' \<in> set missing) \<and>
           (\<forall>n. amt = Some (JNumber n) \<longrightarrow> (''amount'' \<in> set missing \<longleftrightarrow> n \<le> 0)) \<and>
           (absent name \<and> absent description \<longrightarrow> ''description'' \<in> set missing) \<and>
           (''description'' \<in> set missing \<longleftrightarrow> \<not> truthy name \<and> \<not> truthy description) \<and>
           (''category'' \<in> set missing \<longleftrightarrow> \<not> truthy category) \<and>
           map_option asked_field (clarificationQuestion (extractExpenseFromMessage ToNumber JSON_parse ai))
             = (case missing of [] \<Rightarrow> None | f # _ \<Rightarrow> Some f)"
proof -
  from extract_expense_fields[OF assms] obtain amt name description category where
    g: "get_prop (expenseData (extractExpenseFromMessage ToNumber JSON_parse ai)) ''amount'' = Inr amt"
       "get_prop (expenseData (extractExpenseFromMessage ToNumber JSON_parse ai)) ''name'' = Inr name"
       "get_prop (expenseData (extractExpenseFromMessage ToNumber JSON_parse ai)) ''description'' = Inr description"
       "get_prop (expenseData (extractExpenseFromMessage ToNumber JSON_parse ai)) ''category'' = Inr category"
    and m: "missingFields (extractExpenseFromMessage ToNumber JSON_parse ai)
             = (case detect_missing ToNumber amt name description category of
                  [] \<Rightarrow> None | f # fs \<Rightarrow> Some (f # fs))"
    and q: "clarificationQuestion (extractExpenseFromMessage ToNumber JSON_parse ai)
             = clarification (detect_missing ToNumber amt name description category) amt"
    by blast
  define missing where "missing = detect_missing ToNumber amt name description category"
  have 1: "missingFields (extractExpenseFromMessage ToNumber JSON_parse ai)
             = (if missing = [] then None else Some missing)"
    using m by (simp add: missing_def split: list.splits)
  have 2: "missing = filter (\<lambda>f. f \<in> set missing) [''amount'', ''description'', ''category'']"
    unfolding missing_def by (rule detect_missing_ordered)
  have 3: "absent amt \<longrightarrow> ''amount'' \<in> set missing"
    by (auto simp: missing_def detect_missing_def dest: absent_not_truthy)
  have 4: "\<forall>n. amt = Some (JNumber n) \<longrightarrow> (''amount'' \<in> set missing \<longleftrightarrow> n \<le> 0)"
    by (auto simp: missing_def detect_missing_def le_zero_def)
  have 5: "absent name \<and> absent description \<longrightarrow> ''description'' \<in> set missing"
    by (auto simp: missing_def detect_missing_def dest: absent_not_truthy)
  have 6: "''description'' \<in> set missing \<longleftrightarrow> \<not> truthy name \<and> \<not> truthy description"
    by (simp add: missing_def detect_missing_def)
  have 7: "''category'' \<in> set missing \<longleftrightarrow> \<not> truthy category"
    by (simp add: missing_def detect_missing_def)
  have 8: "map_option asked_field (clarificationQuestion (extractExpenseFromMessage ToNumber JSON_parse ai))
             = (case missing of [] \<Rightarrow> None | f # _ \<Rightarrow> Some f)"
    unfolding q missing_def by (rule clarification_first)
  from g 1 2 3 4 5 6 7 8 show ?thesis by blast
qed

text \<open>
  "Bought coffee", extracted with a name and a category and no amount: the amount is the
  one missing field and the question asks for it. With neither amount nor category, both
  are listed and the question still asks for the amount only.
\<close>

theorem missing_field_order_witness:
  \<open>extractExpenseFromMessage (\<lambda>v. NaN)
     (\<lambda>s. if s = ''{"hasExpense":true,"expenseData":{"name":"coffee","category":"food"}}''
          then Some (JObject [(''hasExpense'', JBool True),
                 (''expenseData'', JObject [(''name'', JString ''coffee''),
                                            (''category'', JString ''food'')])])
          else if s = ''{"hasExpense":true,"expenseData":{"name":"coffee","amount":0}}''
          then Some (JObject [(''hasExpense'', JBool True),
                 (''expenseData'', JObject [(''name'', JString ''coffee''),
                                            (''amount'', JNumber 0)])])
          else None)
     (Inr \<lparr>choices = [Some ''{"hasExpense":true,"expenseData":{"name":"coffee","category":"food"}}''],
           total_tokens = None\<rparr>)
   = \<lparr>hasExpense = True,
      expenseData = Some (JObject [(''name'', JString ''coffee''), (''category'', JString ''food'')]),
      missingFields = Some [''amount''],
      clarificationQuestion = Some AskAmount\<rparr> \<and>
   extractExpenseFromMessage (\<lambda>v. NaN)
     (\<lambda>s. if s = ''{"hasExpense":true,"expenseData":{"name":"coffee","category":"food"}}''
          then Some (JObject [(''hasExpense'', JBool True),
                 (''expenseData'', JObject [(''name'', JString ''coffee''),
                                            (''category'', JString ''food'')])])
          else if s = ''{"hasExpense":true,"expenseData":{"name":"coffee","amount":0}}''
          then Some (JObject [(''hasExpense'', JBool True),
                 (''expenseData'', JObject [(''name'', JString ''coffee''),
                                            (''amount'', JNumber 0)])])
          else None)
     (Inr \<lparr>choices = [Some ''{"hasExpense":true,"expenseData":{"name":"coffee","amount":0}}''],
           total_tokens = None\<rparr>)
   = \<lparr>hasExpense = True,
      expenseData = Some (JObject [(''name'', JString ''coffee''), (''amount'', JNumber 0)]),
      missingFields = Some [''amount'', ''category''],
      clarificationQuestion = Some AskAmount\<rparr>\<close>
proof -
  let ?parse = \<open>\<lambda>s. if s = ''{"hasExpense":true,"expenseData":{"name":"coffee","category":"food"}}''
          then Some (JObject [(''hasExpense'', JBool True),
                 (''expenseData'', JObject [(''name'', JString ''coffee''),
                                            (''category'', JString ''food'')])])
          else if s = ''{"hasExpense":true,"expenseData":{"name":"coffee","amount":0}}''
          then Some (JObject [(''hasExpense'', JBool True),
                 (''expenseData'', JObject [(''name'', JString ''coffee''),
                                            (''amount'', JNumber 0)])])
          else None\<close>
  let ?a = \<open>Inr \<lparr>choices = [Some ''{"hasExpense":true,"expenseData":{"name":"coffee","category":"food"}}''],
           total_tokens = None\<rparr> :: string + completion\<close>
  let ?b = \<open>Inr \<lparr>choices = [Some ''{"hasExpense":true,"expenseData":{"name":"coffee","amount":0}}''],
           total_tokens = None\<rparr> :: string + completion\<close>
  have c1: \<open>clean_content ''{"hasExpense":true,"expenseData":{"name":"coffee","category":"food"}}''
      = ''{"hasExpense":true,"expenseData":{"name":"coffee","category":"food"}}''\<close>
    by (simp add: clean_content_def fence_def trim_def is_space_def)
  have c2: \<open>clean_content ''{"hasExpense":true,"expenseData":{"name":"coffee","amount":0}}''
      = ''{"hasExpense":true,"expenseData":{"name":"coffee","amount":0}}''\<close>
    by (simp add: clean_content_def fence_def trim_def is_space_def)
  have ea: "extractExpenseFromMessage_try (\<lambda>v. NaN) ?parse ?a
      = Inr \<lparr>hasExpense = True,
          expenseData = Some (JObject [(''name'', JString ''coffee''), (''category'', JString ''food'')]),
          missingFields = Some [''amount''],
          clarificationQuestion = Some AskAmount\<rparr>"
    by (simp add: extractExpenseFromMessage_try_def first_content_def or_str_def c1
        try_bind_def detect_missing_def clarification_def le_zero_def)
  have eb: "extractExpenseFromMessage_try (\<lambda>v. NaN) ?parse ?b
      = Inr \<lparr>hasExpense = True,
          expenseData = Some (JObject [(''name'', JString ''coffee''), (''amount'', JNumber 0)]),
          missingFields = Some [''amount'', ''category''],
          clarificationQuestion = Some AskAmount\<rparr>"
    by (simp add: extractExpenseFromMessage_try_def first_content_def or_str_def c2
        try_bind_def detect_missing_def clarification_def le_zero_def)
  have ha: "hasExpense (extractExpenseFromMessage (\<lambda>v. NaN) ?parse ?a)"
    by (simp add: extractExpenseFromMessage_def ea)
  from missing_field_order[OF ha] ea eb show ?thesis
    by (simp add: extractExpenseFromMessage_def)
qed

subsection \<open>Malformed provider output\<close>

lemma classifier_provider_failure:
  "extractFinancialData JSON_parse (Inl e) = none_extraction"
  by (simp add: extractFinancialData_def extractFinancialData_try_def)

lemma classifier_parse_failure:
  "first_content response = Inr content \<Longrightarrow> JSON_parse (clean_content content) = None \<Longrightarrow>
   extractFinancialData JSON_parse (Inr response) = none_extraction"
  by (simp add: extractFinancialData_def extractFinancialData_try_def try_bind_def)

lemma classifier_hasData_iff:
  "hasData (extractFinancialData JSON_parse ai) \<longleftrightarrow>
     (\<exists>response content kvs t.
        ai = Inr response \<and> first_content response = Inr content \<and>
        JSON_parse (clean_content content) = Some (JObject kvs) \<and>
        map_of kvs ''type'' = Some t \<and> truthy (Some t) \<and> t \<noteq> JString ''none'')"
proof (cases ai)
  case (Inl e)
  then show ?thesis
    by (simp add: classifier_provider_failure none_extraction_def)
next
  case (Inr response)
  show ?thesis
  proof (cases "first_content response")
    case (Inl err)
    with Inr show ?thesis
      by (simp add: extractFinancialData_def extractFinancialData_try_def try_bind_def
          none_extraction_def)
  next
    case c: (Inr content)
    show ?thesis
    proof (cases "JSON_parse (clean_content content)")
      case None
      with Inr c show ?thesis
        by (simp add: classifier_parse_failure none_extraction_def)
    next
      case (Some result)
      with Inr c show ?thesis
        by (cases result)
          (auto simp: extractFinancialData_def extractFinancialData_try_def try_bind_def
            none_extraction_def split: option.splits)
    qed
  qed
qed

lemma classifier_returns_unvalidated:
  assumes "first_content response = Inr content"
    and "JSON_parse (clean_content content) = Some (JObject kvs)"
    and "map_of kvs ''type'' = Some t" and "truthy (Some t)" and "t \<noteq> JString ''none''"
  shows "extractFinancialData JSON_parse (Inr response)
           = \<lparr>fin_type = t, hasData = True, fin_data = map_of kvs ''data'',
              isMultiple = or_else (map_of kvs ''isMultiple'') (Some (JBool False))\<rparr>"
  using assms
  by (simp add: extractFinancialData_def extractFinancialData_try_def try_bind_def)

text \<open>
  C7, at a schema-incomplete output. The provider answers
  \<^verbatim>\<open>{"type":"expense"}\<close> inside a code fence: the text parses, but it has no
  \<^verbatim>\<open>data\<close>; the classifier returns it as an expense with \<open>hasData = True\<close> and an
  undefined payload, not as \<open>none\<close>.
\<close>

theorem classifier_schema_incomplete:
  \<open>extractFinancialData
     (\<lambda>s. if s = ''{"type":"expense"}'' then Some (JObject [(''type'', JString ''expense'')])
          else None)
     (Inr \<lparr>choices = [Some (fence @ ''json'' @ [CHR 0x0A] @ ''{"type":"expense"}''
                              @ [CHR 0x0A] @ fence)],
           total_tokens = None\<rparr>)
   = \<lparr>fin_type = JString ''expense'', hasData = True, fin_data = None,
      isMultiple = Some (JBool False)\<rparr>\<close>
proof -
  let ?parse = \<open>\<lambda>s. if s = ''{"type":"expense"}''
      then Some (JObject [(''type'', JString ''expense'')]) else None\<close>
  let ?text = \<open>fence @ ''json'' @ [CHR 0x0A] @ ''{"type":"expense"}'' @ [CHR 0x0A] @ fence\<close>
  have c: \<open>clean_content ?text = ''{"type":"expense"}''\<close>
    by (simp add: clean_content_def fence_def trim_def is_space_def)
  have f: "first_content \<lparr>choices = [Some ?text], total_tokens = None\<rparr> = Inr ?text"
    by (simp add: first_content_def or_str_def fence_def)
  have p: "?parse (clean_content ?text) = Some (JObject [(''type'', JString ''expense'')])"
    unfolding c by simp
  show ?thesis
    using f p
      classifier_returns_unvalidated[where JSON_parse = ?parse
        and response = "\<lparr>choices = [Some ?text], total_tokens = None\<rparr>"
        and content = ?text and kvs = "[(''type'', JString ''expense'')]"
        and t = "JString ''expense''"]
    by (simp add: or_else_def)
qed

subsection \<open>Conversation state machine\<close>

lemma save_and_return_states:
  "conversationStates (snd (save_and_return e w m r i)) = conversationStates w"
  by (simp add: save_and_return_def)

lemma saveExpenseToDatabase_states:
  "conversationStates (snd (saveExpenseToDatabase e w u d)) = conversationStates w"
  by (simp add: saveExpenseToDatabase_def split: option.splits json.splits sum.splits)

lemma handleExpenseCreation_states:
  "conversationStates (snd (handleExpenseCreation e w u d s)) = conversationStates w"
  using saveExpenseToDatabase_states[of e w u d]
  by (auto simp: handleExpenseCreation_def split: prod.splits sum.splits)

lemma handleExpenseCreation_never_asks:
  "cr_action (fst (handleExpenseCreation e w u d s)) \<noteq> Some ''pending'' \<and>
   ((\<exists>err. cr_response (fst (handleExpenseCreation e w u d s)) = FailedToSaveExpense err) \<or>
    cr_response (fst (handleExpenseCreation e w u d s)) = ExpenseSaved)"
  by (auto simp: handleExpenseCreation_def split: prod.splits sum.splits)

lemma route_states:
  "route e w u x s = Inr (r, i, w') \<Longrightarrow> conversationStates w' = conversationStates w"
  using handleExpenseCreation_states[of e w u "fin_data x" s]
  by (auto simp: route_def split: if_splits sum.splits prod.splits json.splits)

text \<open>
  Outside a pending operation the chat operation leaves the conversation states as they
  are: no utterance creates a pending operation.
\<close>

lemma no_pending_created:
  assumes "case conversationStates w u of
             None \<Rightarrow> True
           | Some s \<Rightarrow> cs_pendingExpense s = None \<or> cs_missingFields s = None"
  shows "conversationStates (snd (processChatMessage e w u m)) = conversationStates w"
proof -
  define state where "state = (case conversationStates w u of None \<Rightarrow> cleared u | Some s \<Rightarrow> s)"
  have np: "cs_pendingExpense state = None \<or> cs_missingFields state = None"
    using assms by (auto simp: state_def cleared_def split: option.splits)
  show ?thesis
  proof (cases "route e w u (extractFinancialData (env_JSON_parse e) (env_ai e)) state")
    case (Inl err)
    with np show ?thesis
      by (auto simp: processChatMessage_def Let_def state_def[symmetric] save_and_return_states
          split: option.splits)
  next
    case (Inr t)
    obtain r i w' where t: "t = (r, i, w')" by (cases t)
    from route_states[OF Inr[unfolded t]] have "conversationStates w' = conversationStates w" .
    with np Inr t show ?thesis
      by (auto simp: processChatMessage_def Let_def state_def[symmetric] save_and_return_states
          split: option.splits)
  qed
qed

lemma not_greeting_example: "toLowerCase (trim ''I bought coffee'') \<notin> set greetings"
  by (simp add: toLowerCase_def trim_def is_space_def greetings_def lower_char_def)

text \<open>
  C1, at an utterance with one missing field. "I bought coffee" is classified as a single
  expense with a name and a category and no amount. The chat operation asks nothing and
  creates no pending operation: it hands the payload to the database at once, and
  answers that the expense was saved, or that saving failed.
\<close>

theorem chat_missing_amount_not_asked:
  \<open>let payload = JObject [(''name'', JString ''coffee''), (''category'', JString ''food'')];
       e = \<lparr>env_ai = Inr \<lparr>choices =
                 [Some ''{"type":"expense","data":{"name":"coffee","category":"food"}}''],
               total_tokens = None\<rparr>,
            env_JSON_parse =
              (\<lambda>s. if s = ''{"type":"expense","data":{"name":"coffee","category":"food"}}''
                   then Some (JObject [(''type'', JString ''expense''), (''data'', payload)])
                   else None),
            env_persist = persist, env_chat_ok = True,
            env_multiple = multiple, env_other = other\<rparr>;
       w0 = \<lparr>conversationStates = Map.empty, committed = [], chatRows = []\<rparr>;
       out = processChatMessage e w0 ''u1'' ''I bought coffee''
   in cr_response (fst out)
        = (case persist ''u1'' payload of
             Inl err \<Rightarrow> FailedToSaveExpense err | Inr row \<Rightarrow> ExpenseSaved) \<and>
      cr_action (fst out)
        = (case persist ''u1'' payload of
             Inl err \<Rightarrow> None | Inr row \<Rightarrow> Some ''expense_saved'') \<and>
      conversationStates (snd out) = Map.empty \<and>
      committed (snd out)
        = (case persist ''u1'' payload of Inl err \<Rightarrow> [] | Inr row \<Rightarrow> [(''u1'', payload)])\<close>
proof -
  let ?payload = \<open>JObject [(''name'', JString ''coffee''), (''category'', JString ''food'')]\<close>
  let ?text = \<open>''{"type":"expense","data":{"name":"coffee","category":"food"}}''\<close>
  let ?parse = \<open>\<lambda>s. if s = ?text
      then Some (JObject [(''type'', JString ''expense''), (''data'', ?payload)]) else None\<close>
  let ?ai = \<open>Inr \<lparr>choices = [Some ?text], total_tokens = None\<rparr> :: string + completion\<close>
  have c: "clean_content ?text = ?text"
    by (simp add: clean_content_def fence_def trim_def is_space_def)
  have x: "extractFinancialData ?parse ?ai
      = \<lparr>fin_type = JString ''expense'', hasData = True, fin_data = Some ?payload,
         isMultiple = Some (JBool False)\<rparr>"
    by (simp add: extractFinancialData_def extractFinancialData_try_def first_content_def
        or_str_def c try_bind_def or_else_def)
  show ?thesis
    using not_greeting_example
    by (simp add: processChatMessage_def Let_def cleared_def x route_def
        handleExpenseCreation_def saveExpenseToDatabase_def save_and_return_def
        split: sum.splits)
qed

text \<open>
  Had a pending operation been stored with the amount as its one missing field, a reply
  with a positive number would complete it and commit exactly one entry.
\<close>

lemma pending_amount_completed:
  assumes "conversationStates w u = Some s"
    and "cs_userId s = u" and "cs_pendingExpense s = Some p" and "cs_missingFields s = Some [''amount'']"
    and "first_number m = Some a" and "a \<noteq> 0"
    and "env_persist e u (pending_json (p\<lparr>pe_amount := Some a\<rparr>)) = Inr row"
    and "env_chat_ok e"
  shows "cr_action (fst (processChatMessage e w u m)) = Some ''expense_saved'' \<and>
         conversationStates (snd (processChatMessage e w u m)) u = Some (cleared u) \<and>
         committed (snd (processChatMessage e w u m))
           = committed w @ [(u, pending_json (p\<lparr>pe_amount := Some a\<rparr>))]"
  using assms
  by (simp add: processChatMessage_def Let_def handleExpenseCompletion_def amount_block_def
      save_pending_def saveExpenseToDatabase_def saved_result_def save_and_return_def
      pending_json_def)

subsection \<open>Statement ingestion\<close>
















lemma processBankStatement_excel:
  assumes "file_kind fileName = Excel"
  shows "processBankStatement save fileName rows =
     (if parseTransactionData rows = []
      then empty_result\<lparr>errors := [''No transactions found in file'']\<rparr>
      else processTransactionsWithAI save (parseTransactionData rows))"
  using assms by (simp add: processBankStatement_def parseStatementFile_def)



lemma file_kind_examples:
  "file_kind ''statement.xlsx'' = Excel"
  "file_kind ''Statement.XLS'' = Excel"
  "file_kind ''statement.csv'' = CSV"
  "file_kind ''statement.pdf'' = PDF"
  by (simp_all add: file_kind_def toLowerCase_def lower_char_def suffix_to_prefix)








text \<open>
  The same statement uploaded as a CSV text: the library rejects the record of two fields
  before the parser can pass over it, and the import ends with nothing processed and the
  library's error, whatever the other rows hold.
\<close>

lemma csv_short_row_rejected:
  "processBankStatement save ''statement.csv'' example_statement
     = \<lparr>ir_success = False, processed = 0, imported = 0, skipped = 0,
        errors = [''Invalid Record Length: expect 5, got 2 on line 7''],
        ir_totalExpenses = 0, ir_totalIncome = 0, categories = []\<rparr>"
  by (simp add: processBankStatement_def parseStatementFile_def file_kind_examples
      csv_parse_def example_statement_def try_bind_def empty_result_def)

lemma csv_parse_rejects:
  assumes "r \<in> set records" and "length r \<noteq> length first"
  shows "\<exists>message. csv_parse (first # records) = Inl message"
proof -
  from assms obtain i where i: "i < length records" "records ! i = r"
    by (auto simp: in_set_conv_nth)
  then have "(Suc (Suc i), r) \<in> set (enumerate 1 (first # records))"
    by (auto simp: in_set_enumerate_eq)
  with assms(2) have "find (\<lambda>(line, r). length r \<noteq> length first) (enumerate 1 (first # records)) \<noteq> None"
    by (auto simp: find_None_iff)
  then show ?thesis
    by (auto simp: csv_parse_def split: option.splits)
qed

text \<open>
  A CSV text with a record shorter or longer than its first line is never imported, not
  even in part.
\<close>

lemma csv_uneven_rows_rejected:
  assumes "file_kind fileName = CSV" and "r \<in> set rows" and "length r \<noteq> length header"
  shows "processed (processBankStatement save fileName (header # rows)) = 0 \<and>
         imported (processBankStatement save fileName (header # rows)) = 0 \<and>
         skipped (processBankStatement save fileName (header # rows)) = 0 \<and>
         length (errors (processBankStatement save fileName (header # rows))) = 1"
proof -
  from csv_parse_rejects[OF assms(2,3)] obtain message where
    "csv_parse (header # rows) = Inl message" ..
  then show ?thesis
    using assms(1)
    by (simp add: processBankStatement_def parseStatementFile_def try_bind_def empty_result_def)
qed

lemma fl_paise:
  "fl (1211 / 100) = 852165491991511 / 70368744177664"
  "fl (2749 / 50) = 7737747109775933 / 140737488355328"
  using fl_eval[of 3 "1211 / 100" 6817323935932088] fl_eval[of 5 "2749 / 50" 7737747109775933]
  by simp_all

lemma paise_transactions:
  "parseTransactionData paise_statement =
     [\<lparr>rt_name = ''Zepto'', rt_bank = ''HDFC'', rt_amount = 10, rt_date = ''1 Aug 2025'',
        rt_status = ''SUCCESS'', rt_isIncome = False\<rparr>,
      \<lparr>rt_name = ''Uber'', rt_bank = ''HDFC'', rt_amount = 852165491991511 / 70368744177664,
        rt_date = ''2 Aug 2025'', rt_status = ''SUCCESS'', rt_isIncome = False\<rparr>,
      \<lparr>rt_name = ''Swiggy'', rt_bank = ''HDFC'', rt_amount = 7737747109775933 / 140737488355328,
        rt_date = ''3 Aug 2025'', rt_status = ''SUCCESS'', rt_isIncome = False\<rparr>]"
  by (simp add: paise_statement_def parseTransactionData_def List.map_filter_def
      parseTransactionRow_def parseFloat_def unsigned_value_def amount_chars_def is_digit_def
      digits_value_def digit_value_def trim_def is_space_def Let_def fl_numeral fl_paise)

lemma paise_categories:
  "intelligentCategorization ''Zepto'' = ''food''"
  "intelligentCategorization ''Uber'' = ''transport''"
  "intelligentCategorization ''Swiggy'' = ''food''"
  by (simp_all add: intelligentCategorization_def rules_def toLowerCase_def lower_char_def)

lemma paise_sums:
  "dadd 0 10 = 10"
  "dadd 0 (852165491991511 / 70368744177664) = 852165491991511 / 70368744177664"
  "dadd 10 (852165491991511 / 70368744177664) = 1555852933768151 / 70368744177664"
  "dadd (1555852933768151 / 70368744177664) (7737747109775933 / 140737488355328)
     = 2712363244328059 / 35184372088832"
  "dadd 10 (7737747109775933 / 140737488355328) = 2286280498332303 / 35184372088832"
  using fl_eval[of 3 "852165491991511 / 70368744177664" 6817323935932088]
    fl_eval[of 4 "10 + 852165491991511 / 70368744177664" 6223411735072604]
    fl_eval_tie[of 6 "1555852933768151 / 70368744177664 + 7737747109775933 / 140737488355328"
      5424726488656117]
    fl_eval_tie[of 6 "10 + 7737747109775933 / 140737488355328" 4572560996664606]
  by (simp_all add: dadd_def fl_numeral)

text \<open>
  Amounts in rupees and paise: 10 and 54.98 for food, 12.11 for transport. The expense
  total is the double of (10 + 12.11) + 54.98, that is 77.09, and the food total the
  double of 10 + 54.98, that is 64.97999999999999; the two category totals sum to
  77.08999999999999, in exact and in machine arithmetic, and not to the expense total.
\<close>

lemma category_totals_rounding:
  "ir_totalExpenses (processBankStatement (\<lambda>tx. None) ''statement.xlsx'' paise_statement)
     = 2712363244328059 / 35184372088832"
  "categories (processBankStatement (\<lambda>tx. None) ''statement.xlsx'' paise_statement)
     = [(''food'', 2286280498332303 / 35184372088832),
        (''transport'', 852165491991511 / 70368744177664)]"
  "sum_list (map snd (categories
       (processBankStatement (\<lambda>tx. None) ''statement.xlsx'' paise_statement)))
     \<noteq> ir_totalExpenses (processBankStatement (\<lambda>tx. None) ''statement.xlsx'' paise_statement)"
  "dadd (2286280498332303 / 35184372088832) (852165491991511 / 70368744177664)
     \<noteq> ir_totalExpenses (processBankStatement (\<lambda>tx. None) ''statement.xlsx'' paise_statement)"
proof -
  let ?r = "processBankStatement (\<lambda>tx. None) ''statement.xlsx'' paise_statement"
  have run: "?r = processTransactionsWithAI (\<lambda>tx. None) (parseTransactionData paise_statement)"
    unfolding paise_transactions
    by (simp add: processBankStatement_excel[OF file_kind_examples(1)] paise_transactions)
  show t: "ir_totalExpenses ?r = 2712363244328059 / 35184372088832"
    unfolding run paise_transactions
    by (simp add: processTransactionsWithAI_def process_one_def empty_result_def Let_def
        failed_status_def toUpperCase_def upper_char_def categorizeTransaction_def trim_def
        is_space_def paise_categories paise_sums)
  show c: "categories ?r = [(''food'', 2286280498332303 / 35184372088832),
        (''transport'', 852165491991511 / 70368744177664)]"
    unfolding run paise_transactions
    by (simp add: processTransactionsWithAI_def process_one_def empty_result_def Let_def
        failed_status_def toUpperCase_def upper_char_def categorizeTransaction_def trim_def
        is_space_def paise_categories paise_sums add_to_category_def or_str_def)
  show "sum_list (map snd (categories ?r)) \<noteq> ir_totalExpenses ?r"
    unfolding t c by simp
  have "fl (2286280498332303 / 35184372088832 + 852165491991511 / 70368744177664)
      = of_int 5424726488656117 * 2 powi (6 - 52)"
    by (rule fl_eval) simp_all
  then show "dadd (2286280498332303 / 35184372088832) (852165491991511 / 70368744177664)
      \<noteq> ir_totalExpenses ?r"
    unfolding t by (simp add: dadd_def)
qed

subsection \<open>The text helpers on examples\<close>

lemma contextAmount_example:
  "contextAmount (Some (''Assistant: Affordability Analysis: iPhone ('' @ rupee @ ''50,000) for '' @ rupee @ ''7'')) = Some 50000"
  by (simp add: contextAmount_def rupee_def is_digit_def parseInt_digits_def digit_value_def
      fl_numeral)

lemma contextAmount_none: "contextAmount (Some ''User: when can I afford it'') = None"
  by (simp add: contextAmount_def rupee_def)

lemma find_category_example: "find_category (toLowerCase ''It was Food and transport'') = Some ''food''"
  by (simp add: toLowerCase_def lower_char_def category_names_def)

lemma categorization_examples:
  "intelligentCategorization ''Apollo Pharmacy'' = ''healthcare''"
  "intelligentCategorization ''MEESHO TECHNOLOGIES'' = ''food''"
  "intelligentCategorization ''MOHIT SINGH'' = ''other''"
  by (simp_all add: intelligentCategorization_def rules_def toLowerCase_def lower_char_def)

lemma clean_example: "cleanMerchantName ''  super.money   pay!  '' = ''supermoney pay''"
  by (simp add: cleanMerchantName_def is_word_def is_space_def trim_def)

lemma first_number_example: "first_number ''it was 150.505 rupees'' = Some (301 / 2)"
  using fl_eval[of 7 "301 / 2" 5295247999369216]
  by (simp add: is_digit_def number_at_def digits_value_def digit_value_def Let_def)

lemma first_number_example2: "first_number ''about 150. or 20'' = Some 150"
  by (simp add: is_digit_def number_at_def digits_value_def digit_value_def Let_def fl_numeral)

lemma parseFloat_examples:
  "parseFloat (amount_chars ''-1,299.00'') = Some (- 1299)"
  "parseFloat (amount_chars ''Rs. 250'') = Some (1 / 4)"
  "parseFloat (amount_chars ''12-05'') = Some 12"
  "parseFloat (amount_chars ''abc'') = None"
  "parseFloat (amount_chars ''12.11'') = Some (852165491991511 / 70368744177664)"
  using fl_eval[of "- 2" "1 / 4" "2 ^ 52"]
  by (simp_all add: parseFloat_def amount_chars_def unsigned_value_def is_digit_def
      digits_value_def digit_value_def Let_def fl_numeral fl_paise)

end
